theory Spec2Isabelle
  imports Complex_Main "HOL-Library.Sublist" "HOL-Library.AList"
begin

section \<open>JavaScript strings and regular-expression replacements\<close>

text \<open>
  A JavaScript string is modelled as a \<^typ>\<open>string\<close>: a list of code units below 256
  (the Latin-1 block of Unicode). \<open>String.prototype.toLowerCase\<close> maps \<open>A-Z\<close> and the
  upper-case letters \<open>U+00C0 .. U+00DE\<close> (the multiplication sign \<open>U+00D7\<close> excepted) to the
  code unit 32 above, and leaves every other code unit of this block alone.
\<close>

definition toLowerCase_char :: "char \<Rightarrow> char" where
  "toLowerCase_char c =
     (let n = (of_char c :: nat) in
      if (65 \<le> n \<and> n \<le> 90) \<or> (192 \<le> n \<and> n \<le> 222 \<and> n \<noteq> 215)
      then char_of (n + 32) else c)"

definition toLowerCase :: "string \<Rightarrow> string" where
  "toLowerCase s = map toLowerCase_char s"

text \<open>The character class \<open>\s\<close>: tab, line feed, vertical tab, form feed, carriage return,
  space and no-break space are its members below 256.\<close>

definition isWhiteSpace :: "char \<Rightarrow> bool" where
  "isWhiteSpace c = (of_char c \<in> {9, 10, 11, 12, 13, 32, 160 :: nat})"

text \<open>The character class \<open>[a-z0-9-]\<close>.\<close>

definition isKeyChar :: "char \<Rightarrow> bool" where
  "isKeyChar c =
     (let n = (of_char c :: nat) in
      (97 \<le> n \<and> n \<le> 122) \<or> (48 \<le> n \<and> n \<le> 57) \<or> n = 45)"

definition isHyphen :: "char \<Rightarrow> bool" where
  "isHyphen c = (c = CHR ''-'')"

text \<open>\<open>s.replace(/c/g, r)\<close> for a single character \<open>c\<close> and a one-character replacement.\<close>

definition replace_char :: "char \<Rightarrow> char \<Rightarrow> string \<Rightarrow> string" where
  "replace_char c r s = map (\<lambda>x. if x = c then r else x) s"

text \<open>\<open>s.replace(/[p]+/g, r)\<close>: scanning from the left, every maximal run of characters of
  the class \<open>p\<close> is one (greedy) match and is replaced by \<open>r\<close>.\<close>

function replace_runs :: "(char \<Rightarrow> bool) \<Rightarrow> string \<Rightarrow> string \<Rightarrow> string" where
  "replace_runs p r [] = []"
| "replace_runs p r (c # cs) =
     (if p c then r @ replace_runs p r (dropWhile p cs) else c # replace_runs p r cs)"
  by pat_completeness auto
termination
  by (relation "measure (\<lambda>(p, r, s). length s)")
     (auto simp: le_imp_less_Suc length_dropWhile_le)

text \<open>\<open>s.replace(/[^p]/g, '')\<close>: every character outside the class is deleted.\<close>

definition remove_outside :: "(char \<Rightarrow> bool) \<Rightarrow> string \<Rightarrow> string" where
  "remove_outside p s = filter p s"

text \<open>\<open>s.replace(/^-|-$/g, '')\<close>: a position matches when it holds a hyphen and is the
  start of the string (first alternative) or its last position (second alternative); each
  match is one character long and is deleted. The flag tells whether the position is the
  start.\<close>

fun replace_edge_hyphens :: "bool \<Rightarrow> string \<Rightarrow> string" where
  "replace_edge_hyphens at_start [] = []"
| "replace_edge_hyphens at_start (c # cs) =
     (if c = CHR ''-'' \<and> (at_start \<or> cs = [])
      then replace_edge_hyphens False cs
      else c # replace_edge_hyphens False cs)"


subsection \<open>Numbers as text\<close>

text \<open>A JavaScript number is modelled as a rational. Integers print in the radix asked
  for, digits beyond 9 as lower-case letters, a negative one behind a minus sign.\<close>

definition digitChar :: "nat \<Rightarrow> char" where
  "digitChar d = (if d < 10 then char_of (48 + d) else char_of (87 + d))"

function toRadix :: "nat \<Rightarrow> nat \<Rightarrow> string" where
  "toRadix b n =
     (if n < b \<or> b < 2 then [digitChar n] else toRadix b (n div b) @ [digitChar (n mod b)])"
  by pat_completeness auto
termination
  by (relation "measure (\<lambda>(b, n). n)") auto

definition int_toString :: "nat \<Rightarrow> int \<Rightarrow> string" where
  "int_toString radix i =
     (if i < 0 then CHR ''-'' # toRadix radix (nat (- i)) else toRadix radix (nat i))"

text \<open>\<open>ToString\<close> of a number, as a template literal applies it: an integer below
  \<open>10^21\<close> in absolute value prints in decimal; how the runtime prints every other number (its
  shortest round-trip decimal) is the parameter \<open>fmt\<close>.\<close>

definition numberToString :: "(rat \<Rightarrow> string) \<Rightarrow> rat \<Rightarrow> string" where
  "numberToString fmt q =
     (if q = of_int \<lfloor>q\<rfloor> \<and> \<bar>q\<bar> < 10 ^ 21 then int_toString 10 \<lfloor>q\<rfloor> else fmt q)"

text \<open>\<open>s.padStart(2, '0')\<close>.\<close>

definition padStart2 :: "string \<Rightarrow> string" where
  "padStart2 s = replicate (2 - length s) CHR ''0'' @ s"

text \<open>A template literal prints a missing (\<open>undefined\<close>) value as the word itself.\<close>

definition tmpl_num :: "(rat \<Rightarrow> string) \<Rightarrow> rat option \<Rightarrow> string" where
  "tmpl_num fmt x = (case x of None \<Rightarrow> ''undefined'' | Some q \<Rightarrow> numberToString fmt q)"

definition tmpl_str :: "string option \<Rightarrow> string" where
  "tmpl_str x = (case x of None \<Rightarrow> ''undefined'' | Some s \<Rightarrow> s)"

text \<open>\<open>a || b\<close> on an optional string: the empty string is falsy as \<open>undefined\<close> is.\<close>

definition or_else :: "string option \<Rightarrow> string \<Rightarrow> string" where
  "or_else x d = (case x of None \<Rightarrow> d | Some s \<Rightarrow> if s = [] then d else s)"

section \<open>JavaScript objects\<close>

text \<open>
  An ordinary object is the list of its own properties in the order of their creation.
  Assigning to a key that exists replaces the value where it stands, assigning to a new key
  appends (\<^const>\<open>AList.update\<close>). Assigning to \<open>__proto__\<close> runs the setter inherited from
  \<open>Object.prototype\<close> and creates no own property.
  Enumeration (\<open>Object.keys\<close>, \<open>Object.entries\<close>, \<open>for ... of Object.entries\<close>,
  \<open>JSON.stringify\<close>) lists the keys that are array indices first, in ascending numeric
  order, then the other keys in creation order.
\<close>

type_synonym 'a obj = "(string \<times> 'a) list"

definition isDigit :: "char \<Rightarrow> bool" where
  "isDigit c = (48 \<le> (of_char c :: nat) \<and> (of_char c :: nat) \<le> 57)"

definition digitsValue :: "string \<Rightarrow> int" where
  "digitsValue s = foldl (\<lambda>acc c. 10 * acc + (of_char c - 48)) 0 s"

definition isArrayIndex :: "string \<Rightarrow> bool" where
  "isArrayIndex s =
     (s \<noteq> [] \<and> list_all isDigit s \<and> (s = ''0'' \<or> hd s \<noteq> CHR ''0'') \<and>
      digitsValue s < 2 ^ 32 - 1)"

definition Object_entries :: "'a obj \<Rightarrow> (string \<times> 'a) list" where
  "Object_entries ob =
     sort_key (\<lambda>kv. digitsValue (fst kv)) (filter (\<lambda>kv. isArrayIndex (fst kv)) ob) @
     filter (\<lambda>kv. \<not> isArrayIndex (fst kv)) ob"

definition Object_keys :: "'a obj \<Rightarrow> string list" where
  "Object_keys ob = map fst (Object_entries ob)"

definition obj_set :: "'a obj \<Rightarrow> string \<Rightarrow> 'a \<Rightarrow> 'a obj" where
  "obj_set ob k v = (if k = ''__proto__'' then ob else AList.update k v ob)"

text \<open>\<open>ob[k]\<close> of an own property.\<close>

definition obj_get :: "'a obj \<Rightarrow> string \<Rightarrow> 'a option" where
  "obj_get ob k = map_of ob k"

text \<open>The property names every ordinary object inherits from \<open>Object.prototype\<close>; each
  reads as a truthy value.\<close>

definition inheritedProperty :: "string \<Rightarrow> bool" where
  "inheritedProperty k =
     (k \<in> set [''constructor'', ''toString'', ''valueOf'', ''toLocaleString'',
               ''hasOwnProperty'', ''isPrototypeOf'', ''propertyIsEnumerable'',
               ''__proto__'', ''__defineGetter__'', ''__defineSetter__'',
               ''__lookupGetter__'', ''__lookupSetter__''])"

section \<open>The data model\<close>

datatype error = TypeError

subsection \<open>What the design-file API returns\<close>

text \<open>The shapes of \<open>types/index.ts\<close>; a field the code reads through \<open>?.\<close>, \<open>??\<close>
  or a truthiness test is optional. Fields no code reads are left out.\<close>

record FigmaColor =
  color_r :: rat
  color_g :: rat
  color_b :: rat
  color_a :: "rat option"

record Fill =
  fill_color :: "FigmaColor option"
  fill_opacity :: "rat option"

record FigmaTextStyle =
  fontFamily :: string
  fontSize :: rat
  fontWeight :: rat
  letterSpacing :: rat
  lineHeightPx :: rat

record FigmaEffect =
  fx_type :: string
  fx_color :: "FigmaColor option"
  fx_offset :: "(rat \<times> rat) option"
  fx_radius :: rat
  fx_spread :: "rat option"

record BoundingBox =
  box_width :: rat

datatype Node = Node
  (node_name: "string option")
  (node_styles: "string obj option")
  (node_children: "Node list option")
  (node_fills: "Fill list option")
  (node_style: "FigmaTextStyle option")
  (node_effects: "FigmaEffect list option")
  (node_absoluteBoundingBox: "BoundingBox option")

text \<open>An entry of the published-styles list.\<close>

record Style =
  style_key :: "string option"
  style_name :: "string option"
  style_type :: string
  style_description :: "string option"
  style_node_id :: string

record Variable =
  var_resolvedType :: string
  var_name :: "string option"
  var_description :: "string option"
  var_valuesByMode :: "FigmaColor obj option"

record FileData =
  file_document :: Node
  file_variables :: "Variable obj option"
  file_name :: "string option"

subsection \<open>Tokens\<close>

record ColorToken =
  ct_name :: string
  ct_value :: string
  ct_opacity :: "rat option"
  ct_description :: "string option"
  ct_figmaId :: "string option"

datatype LineHeight = LineHeightNumber rat | LineHeightString string

record TypographyToken =
  tt_name :: string
  tt_fontFamily :: string
  tt_fontSize :: rat
  tt_fontWeight :: rat
  tt_lineHeight :: LineHeight
  tt_letterSpacing :: rat
  tt_description :: "string option"
  tt_figmaId :: "string option"

record SpacingToken =
  st_name :: string
  st_value :: rat
  st_description :: "string option"

datatype EffectKind = Shadow | Blur | Glow

record EffectValue =
  ev_color :: "string option"
  ev_offsetX :: "rat option"
  ev_offsetY :: "rat option"
  ev_blur :: "rat option"
  ev_spread :: "rat option"

record EffectToken =
  et_name :: string
  et_type :: EffectKind
  et_value :: EffectValue
  et_description :: "string option"
  et_figmaId :: "string option"

record Metadata =
  md_version :: string
  md_lastSynced :: string
  md_figmaFileKey :: "string option"
  md_figmaFileName :: "string option"

record DesignTokens =
  tk_colors :: "ColorToken obj"
  tk_typography :: "TypographyToken obj"
  tk_spacing :: "SpacingToken obj"
  tk_effects :: "EffectToken obj"
  tk_metadata :: Metadata

section \<open>The extractor's helpers\<close>

text \<open>\<open>tokenizeName\<close> of \<open>figma-extractor.ts\<close>: the chain of five replacements on the
  lower-cased name.\<close>

definition tokenizeName :: "string \<Rightarrow> string" where
  "tokenizeName name =
     replace_edge_hyphens True
       (replace_runs isHyphen ''-''
         (remove_outside isKeyChar
           (replace_runs isWhiteSpace ''-''
             (replace_char CHR ''/'' CHR ''-'' (toLowerCase name)))))"

text \<open>Called on a name that is \<open>undefined\<close>, \<open>name.toLowerCase()\<close> throws a
  \<open>TypeError\<close>: the loops below return \<^term>\<open>Inl TypeError\<close> there.\<close>

text \<open>\<open>Math.round(x)\<close> is \<open>floor(x + 1/2)\<close>, which is \<^const>\<open>round\<close>.\<close>

definition figmaColorToHex :: "FigmaColor \<Rightarrow> string" where
  "figmaColorToHex color =
     (let r = round (color_r color * 255);
          g = round (color_g color * 255);
          b = round (color_b color * 255)
      in CHR ''#'' # padStart2 (int_toString 16 r) @ padStart2 (int_toString 16 g)
           @ padStart2 (int_toString 16 b))"

definition figmaColorToRgba :: "(rat \<Rightarrow> string) \<Rightarrow> FigmaColor \<Rightarrow> string" where
  "figmaColorToRgba fmt color =
     (let r = round (color_r color * 255);
          g = round (color_g color * 255);
          b = round (color_b color * 255);
          a = (case color_a color of None \<Rightarrow> 1 | Some x \<Rightarrow> x)
      in ''rgba('' @ numberToString fmt (of_int r) @ '', '' @ numberToString fmt (of_int g)
           @ '', '' @ numberToString fmt (of_int b) @ '', '' @ numberToString fmt a @ '')'')"

definition mapEffectType :: "string \<Rightarrow> EffectKind" where
  "mapEffectType figmaType =
     (if figmaType = ''DROP_SHADOW'' \<or> figmaType = ''INNER_SHADOW'' then Shadow
      else if figmaType = ''LAYER_BLUR'' \<or> figmaType = ''BACKGROUND_BLUR'' then Blur
      else Shadow)"

subsection \<open>The two resolvers\<close>

text \<open>A node matches when some value of its own \<open>styles\<close> object is the identifier.\<close>

definition stylesMatch :: "Node \<Rightarrow> string \<Rightarrow> bool" where
  "stylesMatch node styleId =
     (case node_styles node of
        None \<Rightarrow> False
      | Some st \<Rightarrow> list_ex (\<lambda>kv. snd kv = styleId) (Object_entries st))"

text \<open>The loop over the children returns at the first child whose search finds a node.\<close>

fun findNodeByStyleId :: "Node \<Rightarrow> string \<Rightarrow> Node option"
  and findNodeByStyleId_children :: "Node list \<Rightarrow> string \<Rightarrow> Node option" where
  "findNodeByStyleId (Node nm st ch fl sty fx bb) styleId =
     (if stylesMatch (Node nm st ch fl sty fx bb) styleId then Some (Node nm st ch fl sty fx bb)
      else case ch of
        None \<Rightarrow> None
      | Some children \<Rightarrow> findNodeByStyleId_children children styleId)"
| "findNodeByStyleId_children [] styleId = None"
| "findNodeByStyleId_children (child # rest) styleId =
     (case findNodeByStyleId child styleId of
        Some found \<Rightarrow> Some found
      | None \<Rightarrow> findNodeByStyleId_children rest styleId)"

definition nameMatches :: "Node \<Rightarrow> string \<Rightarrow> bool" where
  "nameMatches node name = (map_option toLowerCase (node_name node) = Some (toLowerCase name))"

fun findNodeByName :: "Node \<Rightarrow> string \<Rightarrow> Node option"
  and findNodeByName_children :: "Node list \<Rightarrow> string \<Rightarrow> Node option" where
  "findNodeByName (Node nm st ch fl sty fx bb) name =
     (if nameMatches (Node nm st ch fl sty fx bb) name then Some (Node nm st ch fl sty fx bb)
      else case ch of
        None \<Rightarrow> None
      | Some children \<Rightarrow> findNodeByName_children children name)"
| "findNodeByName_children [] name = None"
| "findNodeByName_children (child # rest) name =
     (case findNodeByName child name of
        Some found \<Rightarrow> Some found
      | None \<Rightarrow> findNodeByName_children rest name)"

subsection \<open>Colors\<close>

text \<open>The guard \<open>node?.fills?.[0]?.color\<close>: the first fill and its color, when the node was
  found, has fills, has a first fill and that fill has a color.\<close>

definition firstFillColor :: "Node option \<Rightarrow> (Fill \<times> FigmaColor) option" where
  "firstFillColor node =
     (case node of
        None \<Rightarrow> None
      | Some n \<Rightarrow>
          (case node_fills n of
             None \<Rightarrow> None
           | Some [] \<Rightarrow> None
           | Some (fill # _) \<Rightarrow>
               (case fill_color fill of None \<Rightarrow> None | Some c \<Rightarrow> Some (fill, c))))"

definition styleColorToken :: "Style \<Rightarrow> string \<Rightarrow> Fill \<Rightarrow> FigmaColor \<Rightarrow> ColorToken" where
  "styleColorToken style name fill color =
     \<lparr> ct_name = name,
       ct_value = figmaColorToHex color,
       ct_opacity = Some (case fill_opacity fill of None \<Rightarrow> 1 | Some x \<Rightarrow> x),
       ct_description = style_description style,
       ct_figmaId = style_key style \<rparr>"

text \<open>The loop of \<open>extractColors\<close> over the fill styles, the map threaded through.\<close>

fun extractColors_styles :: "Node \<Rightarrow> ColorToken obj \<Rightarrow> Style list \<Rightarrow> error + ColorToken obj" where
  "extractColors_styles doc colors [] = Inr colors"
| "extractColors_styles doc colors (style # rest) =
     (case firstFillColor (findNodeByStyleId doc (style_node_id style)) of
        None \<Rightarrow> extractColors_styles doc colors rest
      | Some (fill, color) \<Rightarrow>
          (case style_name style of
             None \<Rightarrow> Inl TypeError
           | Some nm \<Rightarrow>
               extractColors_styles doc
                 (obj_set colors (tokenizeName nm) (styleColorToken style nm fill color)) rest))"

text \<open>\<open>variable.valuesByMode?.[Object.keys(variable.valuesByMode)[0]]\<close>.\<close>

definition firstModeValue :: "Variable \<Rightarrow> FigmaColor option" where
  "firstModeValue variable =
     (case var_valuesByMode variable of
        None \<Rightarrow> None
      | Some modes \<Rightarrow>
          (case Object_keys modes of [] \<Rightarrow> None | k # _ \<Rightarrow> obj_get modes k))"

definition variableColorToken :: "string \<Rightarrow> Variable \<Rightarrow> string \<Rightarrow> FigmaColor \<Rightarrow> ColorToken" where
  "variableColorToken vid variable name color =
     \<lparr> ct_name = name,
       ct_value = figmaColorToHex color,
       ct_opacity = None,
       ct_description = var_description variable,
       ct_figmaId = Some vid \<rparr>"

fun extractColorVariables_loop ::
  "ColorToken obj \<Rightarrow> (string \<times> Variable) list \<Rightarrow> error + ColorToken obj" where
  "extractColorVariables_loop colors [] = Inr colors"
| "extractColorVariables_loop colors ((vid, variable) # rest) =
     (if var_resolvedType variable = ''COLOR'' then
        (case var_name variable of
           None \<Rightarrow> Inl TypeError
         | Some nm \<Rightarrow>
             (case firstModeValue variable of
                None \<Rightarrow> extractColorVariables_loop colors rest
              | Some color \<Rightarrow>
                  extractColorVariables_loop
                    (obj_set colors (tokenizeName nm) (variableColorToken vid variable nm color))
                    rest))
      else extractColorVariables_loop colors rest)"

definition extractColorVariables :: "FileData \<Rightarrow> ColorToken obj \<Rightarrow> error + ColorToken obj" where
  "extractColorVariables fileData colors =
     (case file_variables fileData of
        None \<Rightarrow> Inr colors
      | Some vars \<Rightarrow> extractColorVariables_loop colors (Object_entries vars))"

definition extractColors :: "FileData \<Rightarrow> Style list \<Rightarrow> error + ColorToken obj" where
  "extractColors fileData styles =
     (case extractColors_styles (file_document fileData) []
             (filter (\<lambda>s. style_type s = ''FILL'') styles) of
        Inl e \<Rightarrow> Inl e
      | Inr colors \<Rightarrow> extractColorVariables fileData colors)"

subsection \<open>Typography\<close>

definition typographyToken :: "Style \<Rightarrow> string \<Rightarrow> FigmaTextStyle \<Rightarrow> TypographyToken" where
  "typographyToken style name textStyle =
     \<lparr> tt_name = name,
       tt_fontFamily = fontFamily textStyle,
       tt_fontSize = fontSize textStyle,
       tt_fontWeight = fontWeight textStyle,
       tt_lineHeight = LineHeightNumber (lineHeightPx textStyle),
       tt_letterSpacing = letterSpacing textStyle,
       tt_description = style_description style,
       tt_figmaId = style_key style \<rparr>"

fun extractTypography_styles ::
  "Node \<Rightarrow> TypographyToken obj \<Rightarrow> Style list \<Rightarrow> error + TypographyToken obj" where
  "extractTypography_styles doc typo [] = Inr typo"
| "extractTypography_styles doc typo (style # rest) =
     (case Option.bind (findNodeByStyleId doc (style_node_id style)) node_style of
        None \<Rightarrow> extractTypography_styles doc typo rest
      | Some textStyle \<Rightarrow>
          (case style_name style of
             None \<Rightarrow> Inl TypeError
           | Some nm \<Rightarrow>
               extractTypography_styles doc
                 (obj_set typo (tokenizeName nm) (typographyToken style nm textStyle)) rest))"

definition extractTypography :: "FileData \<Rightarrow> Style list \<Rightarrow> error + TypographyToken obj" where
  "extractTypography fileData styles =
     extractTypography_styles (file_document fileData) []
       (filter (\<lambda>s. style_type s = ''TEXT'') styles)"

subsection \<open>Spacing\<close>

definition spacingToken :: "string \<Rightarrow> BoundingBox \<Rightarrow> SpacingToken" where
  "spacingToken name box =
     \<lparr> st_name = name,
       st_value = of_int (round (box_width box)),
       st_description = Some (''Spacing unit: '' @ name) \<rparr>"

fun extractSpacing_children :: "SpacingToken obj \<Rightarrow> Node list \<Rightarrow> error + SpacingToken obj" where
  "extractSpacing_children spacing [] = Inr spacing"
| "extractSpacing_children spacing (child # rest) =
     (case node_absoluteBoundingBox child of
        None \<Rightarrow> extractSpacing_children spacing rest
      | Some box \<Rightarrow>
          (case node_name child of
             None \<Rightarrow> Inl TypeError
           | Some nm \<Rightarrow>
               extractSpacing_children
                 (obj_set spacing (tokenizeName nm) (spacingToken nm box)) rest))"

definition defaultScale :: "int list" where
  "defaultScale = [0, 4, 8, 12, 16, 20, 24, 32, 40, 48, 64, 80, 96, 128]"

definition defaultSpacingToken :: "int \<Rightarrow> nat \<Rightarrow> SpacingToken" where
  "defaultSpacingToken v index =
     \<lparr> st_name = ''Space '' @ int_toString 10 (int index),
       st_value = of_int v,
       st_description = Some (int_toString 10 v @ ''px spacing unit'') \<rparr>"

text \<open>\<open>defaultScale.forEach((value, index) => ...)\<close>, the index counted up.\<close>

fun extractSpacing_default :: "SpacingToken obj \<Rightarrow> nat \<Rightarrow> int list \<Rightarrow> SpacingToken obj" where
  "extractSpacing_default spacing index [] = spacing"
| "extractSpacing_default spacing index (v # rest) =
     extractSpacing_default
       (obj_set spacing (''space-'' @ int_toString 10 (int index)) (defaultSpacingToken v index))
       (Suc index) rest"

definition extractSpacing :: "FileData \<Rightarrow> error + SpacingToken obj" where
  "extractSpacing fileData =
     (case (case findNodeByName (file_document fileData) ''Spacing'' of
              None \<Rightarrow> Inr []
            | Some spacingFrame \<Rightarrow>
                (case node_children spacingFrame of
                   None \<Rightarrow> Inr []
                 | Some children \<Rightarrow> extractSpacing_children [] children)) of
        Inl e \<Rightarrow> Inl e
      | Inr spacing \<Rightarrow>
          if length (Object_keys spacing) = 0
          then Inr (extractSpacing_default spacing 0 defaultScale)
          else Inr spacing)"

subsection \<open>Effects\<close>

definition effectToken :: "(rat \<Rightarrow> string) \<Rightarrow> Style \<Rightarrow> string \<Rightarrow> FigmaEffect \<Rightarrow> EffectToken" where
  "effectToken fmt style name effect =
     \<lparr> et_name = name,
       et_type = mapEffectType (fx_type effect),
       et_value =
         \<lparr> ev_color = map_option (figmaColorToRgba fmt) (fx_color effect),
           ev_offsetX = Some (case fx_offset effect of None \<Rightarrow> 0 | Some xy \<Rightarrow> fst xy),
           ev_offsetY = Some (case fx_offset effect of None \<Rightarrow> 0 | Some xy \<Rightarrow> snd xy),
           ev_blur = Some (fx_radius effect),
           ev_spread = Some (case fx_spread effect of None \<Rightarrow> 0 | Some x \<Rightarrow> x) \<rparr>,
       et_description = style_description style,
       et_figmaId = style_key style \<rparr>"

text \<open>The guard \<open>node?.effects?.[0]\<close>.\<close>

definition firstEffect :: "Node option \<Rightarrow> FigmaEffect option" where
  "firstEffect node =
     (case node of
        None \<Rightarrow> None
      | Some n \<Rightarrow>
          (case node_effects n of None \<Rightarrow> None | Some [] \<Rightarrow> None | Some (e # _) \<Rightarrow> Some e))"

fun extractEffects_styles ::
  "(rat \<Rightarrow> string) \<Rightarrow> Node \<Rightarrow> EffectToken obj \<Rightarrow> Style list \<Rightarrow> error + EffectToken obj" where
  "extractEffects_styles fmt doc effs [] = Inr effs"
| "extractEffects_styles fmt doc effs (style # rest) =
     (case firstEffect (findNodeByStyleId doc (style_node_id style)) of
        None \<Rightarrow> extractEffects_styles fmt doc effs rest
      | Some effect \<Rightarrow>
          (case style_name style of
             None \<Rightarrow> Inl TypeError
           | Some nm \<Rightarrow>
               extractEffects_styles fmt doc
                 (obj_set effs (tokenizeName nm) (effectToken fmt style nm effect)) rest))"

definition extractEffects :: "(rat \<Rightarrow> string) \<Rightarrow> FileData \<Rightarrow> Style list \<Rightarrow> error + EffectToken obj" where
  "extractEffects fmt fileData styles =
     extractEffects_styles fmt (file_document fileData) []
       (filter (\<lambda>s. style_type s = ''EFFECT'') styles)"

section \<open>The serializers\<close>

subsection \<open>Text helpers\<close>

definition newline :: string where
  "newline = [CHR 0x0A]"

definition dquote :: string where
  "dquote = [CHR 0x22]"

definition backslash :: string where
  "backslash = [CHR 0x5C]"

text \<open>\<open>lines.join(sep)\<close>.\<close>

fun join :: "string \<Rightarrow> string list \<Rightarrow> string" where
  "join sep [] = []"
| "join sep [x] = x"
| "join sep (x # y # ys) = x @ sep @ join sep (y # ys)"

text \<open>\<open>typeof lineHeight === 'number' ? lineHeight + 'px' : lineHeight\<close>.\<close>

definition lineHeightText :: "(rat \<Rightarrow> string) \<Rightarrow> LineHeight \<Rightarrow> string" where
  "lineHeightText fmt lh =
     (case lh of
        LineHeightNumber n \<Rightarrow> numberToString fmt n @ ''px''
      | LineHeightString s \<Rightarrow> s)"

text \<open>The template \<open>${offsetX}px ${offsetY}px ${blur}px ${spread}px ${color}\<close> over the
  destructured effect value.\<close>

definition shadowText :: "(rat \<Rightarrow> string) \<Rightarrow> EffectValue \<Rightarrow> string" where
  "shadowText fmt v =
     tmpl_num fmt (ev_offsetX v) @ ''px '' @ tmpl_num fmt (ev_offsetY v) @ ''px ''
       @ tmpl_num fmt (ev_blur v) @ ''px '' @ tmpl_num fmt (ev_spread v) @ ''px ''
       @ tmpl_str (ev_color v)"

text \<open>The template \<open>${effect.value.blur}px\<close>.\<close>

definition blurText :: "(rat \<Rightarrow> string) \<Rightarrow> EffectValue \<Rightarrow> string" where
  "blurText fmt v = tmpl_num fmt (ev_blur v) @ ''px''"

subsection \<open>CSS custom properties\<close>

definition css_color_lines :: "(rat \<Rightarrow> string) \<Rightarrow> string \<times> ColorToken \<Rightarrow> string list" where
  "css_color_lines fmt kv =
     (case kv of (key, color) \<Rightarrow>
        [''  --color-'' @ key @ '': '' @ ct_value color @ '';'']
        @ (case ct_opacity color of
             None \<Rightarrow> []
           | Some opacity \<Rightarrow>
               if opacity < 1
               then [''  --color-'' @ key @ ''-opacity: '' @ numberToString fmt opacity @ '';'']
               else []))"

definition css_typography_lines ::
  "(rat \<Rightarrow> string) \<Rightarrow> string \<times> TypographyToken \<Rightarrow> string list" where
  "css_typography_lines fmt kv =
     (case kv of (key, typo) \<Rightarrow>
        [''  --font-'' @ key @ ''-family: '' @ dquote @ tt_fontFamily typo @ dquote @ '';'',
         ''  --font-'' @ key @ ''-size: '' @ numberToString fmt (tt_fontSize typo) @ ''px;'',
         ''  --font-'' @ key @ ''-weight: '' @ numberToString fmt (tt_fontWeight typo) @ '';'',
         ''  --font-'' @ key @ ''-line-height: '' @ lineHeightText fmt (tt_lineHeight typo) @ '';'',
         ''  --font-'' @ key @ ''-letter-spacing: ''
           @ numberToString fmt (tt_letterSpacing typo) @ ''px;''])"

definition css_spacing_lines :: "(rat \<Rightarrow> string) \<Rightarrow> string \<times> SpacingToken \<Rightarrow> string list" where
  "css_spacing_lines fmt kv =
     (case kv of (key, space) \<Rightarrow>
        [''  --spacing-'' @ key @ '': '' @ numberToString fmt (st_value space) @ ''px;''])"

definition css_effect_lines :: "(rat \<Rightarrow> string) \<Rightarrow> string \<times> EffectToken \<Rightarrow> string list" where
  "css_effect_lines fmt kv =
     (case kv of (key, effect) \<Rightarrow>
        (case et_type effect of
           Shadow \<Rightarrow> [''  --shadow-'' @ key @ '': '' @ shadowText fmt (et_value effect) @ '';'']
         | Blur \<Rightarrow> [''  --blur-'' @ key @ '': '' @ blurText fmt (et_value effect) @ '';'']
         | Glow \<Rightarrow> []))"

definition toCSSVariables_lines :: "(rat \<Rightarrow> string) \<Rightarrow> DesignTokens \<Rightarrow> string list" where
  "toCSSVariables_lines fmt tokens =
     [''/**'',
      '' * Origin OS Design Tokens'',
      '' * Generated: '' @ md_lastSynced (tk_metadata tokens),
      '' * Source: Figma file '' @ or_else (md_figmaFileKey (tk_metadata tokens)) ''unknown'',
      '' * DO NOT EDIT MANUALLY - This file is auto-generated'',
      '' */'',
      '''',
      '':root {'']
     @ (if length (Object_keys (tk_colors tokens)) > 0
        then [''  /* Colors */'']
             @ concat (map (css_color_lines fmt) (Object_entries (tk_colors tokens))) @ ['''']
        else [])
     @ (if length (Object_keys (tk_typography tokens)) > 0
        then [''  /* Typography */'']
             @ concat (map (css_typography_lines fmt) (Object_entries (tk_typography tokens)))
             @ ['''']
        else [])
     @ (if length (Object_keys (tk_spacing tokens)) > 0
        then [''  /* Spacing */'']
             @ concat (map (css_spacing_lines fmt) (Object_entries (tk_spacing tokens))) @ ['''']
        else [])
     @ (if length (Object_keys (tk_effects tokens)) > 0
        then [''  /* Effects */'']
             @ concat (map (css_effect_lines fmt) (Object_entries (tk_effects tokens))) @ ['''']
        else [])
     @ [''}'',
        '''',
        ''[data-theme='' @ dquote @ ''dark'' @ dquote @ ''] {'',
        ''  /* Dark mode overrides - customize as needed */'',
        ''}'']"

definition toCSSVariables :: "(rat \<Rightarrow> string) \<Rightarrow> DesignTokens \<Rightarrow> string" where
  "toCSSVariables fmt tokens = join newline (toCSSVariables_lines fmt tokens)"

subsection \<open>SCSS variables\<close>

definition scss_color_map_line :: "string \<times> ColorToken \<Rightarrow> string" where
  "scss_color_map_line kv =
     (case kv of (key, color) \<Rightarrow>
        ''  '' @ dquote @ key @ dquote @ '': '' @ ct_value color @ '','')"

definition scss_typography_lines ::
  "(rat \<Rightarrow> string) \<Rightarrow> string \<times> TypographyToken \<Rightarrow> string list" where
  "scss_typography_lines fmt kv =
     (case kv of (key, typo) \<Rightarrow>
        [''$font-'' @ key @ ''-family: '' @ dquote @ tt_fontFamily typo @ dquote @ '';'',
         ''$font-'' @ key @ ''-size: '' @ numberToString fmt (tt_fontSize typo) @ ''px;'',
         ''$font-'' @ key @ ''-weight: '' @ numberToString fmt (tt_fontWeight typo) @ '';'',
         ''$font-'' @ key @ ''-line-height: '' @ lineHeightText fmt (tt_lineHeight typo) @ '';'',
         ''$font-'' @ key @ ''-letter-spacing: ''
           @ numberToString fmt (tt_letterSpacing typo) @ ''px;'',
         ''''])"

definition scss_mixin_lines :: "string \<times> TypographyToken \<Rightarrow> string list" where
  "scss_mixin_lines kv =
     (case kv of (key, typo) \<Rightarrow>
        [''  @if $style == '' @ dquote @ key @ dquote @ '' {'',
         ''    font-family: $font-'' @ key @ ''-family;'',
         ''    font-size: $font-'' @ key @ ''-size;'',
         ''    font-weight: $font-'' @ key @ ''-weight;'',
         ''    line-height: $font-'' @ key @ ''-line-height;'',
         ''    letter-spacing: $font-'' @ key @ ''-letter-spacing;'',
         ''  }''])"

definition scss_effect_lines :: "(rat \<Rightarrow> string) \<Rightarrow> string \<times> EffectToken \<Rightarrow> string list" where
  "scss_effect_lines fmt kv =
     (case kv of (key, effect) \<Rightarrow>
        (case et_type effect of
           Shadow \<Rightarrow> [''$shadow-'' @ key @ '': '' @ shadowText fmt (et_value effect) @ '';'']
         | Blur \<Rightarrow> [''$blur-'' @ key @ '': '' @ blurText fmt (et_value effect) @ '';'']
         | Glow \<Rightarrow> []))"

definition toSCSS_lines :: "(rat \<Rightarrow> string) \<Rightarrow> DesignTokens \<Rightarrow> string list" where
  "toSCSS_lines fmt tokens =
     [''//'',
      ''// Origin OS Design Tokens (SCSS)'',
      ''// Generated: '' @ md_lastSynced (tk_metadata tokens),
      ''// DO NOT EDIT MANUALLY - This file is auto-generated'',
      ''//'',
      '''']
     @ (if length (Object_keys (tk_colors tokens)) > 0
        then [''// Colors'', ''// -------'']
             @ map (\<lambda>kv. ''$color-'' @ fst kv @ '': '' @ ct_value (snd kv) @ '';'')
                 (Object_entries (tk_colors tokens))
             @ ['''', ''$colors: ('']
             @ map scss_color_map_line (Object_entries (tk_colors tokens))
             @ ['');'', '''']
        else [])
     @ (if length (Object_keys (tk_typography tokens)) > 0
        then [''// Typography'', ''// ----------'']
             @ concat (map (scss_typography_lines fmt) (Object_entries (tk_typography tokens)))
             @ [''// Typography Mixin'', ''@mixin typography($style) {'']
             @ concat (map scss_mixin_lines (Object_entries (tk_typography tokens)))
             @ [''}'', '''']
        else [])
     @ (if length (Object_keys (tk_spacing tokens)) > 0
        then [''// Spacing'', ''// -------'']
             @ map (\<lambda>kv. ''$spacing-'' @ fst kv @ '': ''
                        @ numberToString fmt (st_value (snd kv)) @ ''px;'')
                 (Object_entries (tk_spacing tokens))
             @ ['''', ''$spacing: ('']
             @ map (\<lambda>kv. ''  '' @ dquote @ fst kv @ dquote @ '': ''
                        @ numberToString fmt (st_value (snd kv)) @ ''px,'')
                 (Object_entries (tk_spacing tokens))
             @ ['');'', '''']
        else [])
     @ (if length (Object_keys (tk_effects tokens)) > 0
        then [''// Effects'', ''// -------'']
             @ concat (map (scss_effect_lines fmt) (Object_entries (tk_effects tokens)))
             @ ['''']
        else [])"

definition toSCSS :: "(rat \<Rightarrow> string) \<Rightarrow> DesignTokens \<Rightarrow> string" where
  "toSCSS fmt tokens = join newline (toSCSS_lines fmt tokens)"

subsection \<open>JSON values and \<open>JSON.stringify\<close>\<close>

text \<open>The values the serializers build: strings, numbers, arrays and objects; a property
  may hold \<open>undefined\<close>.\<close>

datatype json =
  JUndefined
| JString string
| JNumber rat
| JArray "json list"
| JObject "(string \<times> json) list"

text \<open>The own property at the end of a path of keys.\<close>

fun json_at :: "json \<Rightarrow> string list \<Rightarrow> json option" where
  "json_at j [] = Some j"
| "json_at (JObject ob) (k # ks) =
     (case obj_get ob k of None \<Rightarrow> None | Some v \<Rightarrow> json_at v ks)"
| "json_at j (k # ks) = None"

text \<open>\<open>QuoteJSONString\<close>: the quote and the backslash are escaped, the control characters
  print by their short escape or as \<open>\u00XX\<close>.\<close>

definition escapeJSON_char :: "char \<Rightarrow> string" where
  "escapeJSON_char c =
     (let n = (of_char c :: nat) in
      if n = 34 then backslash @ dquote
      else if n = 92 then backslash @ backslash
      else if n = 8 then backslash @ ''b''
      else if n = 9 then backslash @ ''t''
      else if n = 10 then backslash @ ''n''
      else if n = 12 then backslash @ ''f''
      else if n = 13 then backslash @ ''r''
      else if n < 32 then backslash @ ''u00'' @ padStart2 (int_toString 16 (int n))
      else [c])"

definition quoteJSON :: "string \<Rightarrow> string" where
  "quoteJSON s = dquote @ concat (map escapeJSON_char s) @ dquote"

definition indentation :: "nat \<Rightarrow> string" where
  "indentation level = replicate (2 * level) CHR '' ''"

text \<open>\<open>JSON.stringify(v, null, 2)\<close> at a nesting level. A property holding \<open>undefined\<close>
  is left out of an object; in an array it prints as \<open>null\<close>.\<close>

lemma Object_entries_subset: "set (Object_entries ob) \<subseteq> set ob"
  by (auto simp: Object_entries_def)

function stringify :: "(rat \<Rightarrow> string) \<Rightarrow> nat \<Rightarrow> json \<Rightarrow> string" where
  "stringify fmt level JUndefined = ''null''"
| "stringify fmt level (JString s) = quoteJSON s"
| "stringify fmt level (JNumber n) = numberToString fmt n"
| "stringify fmt level (JArray xs) =
     (if xs = [] then ''[]''
      else ''['' @ newline @ indentation (Suc level)
           @ join ('','' @ newline @ indentation (Suc level))
               (map (stringify fmt (Suc level)) xs)
           @ newline @ indentation level @ '']'')"
| "stringify fmt level (JObject ob) =
     (if filter (\<lambda>kv. snd kv \<noteq> JUndefined) (Object_entries ob) = [] then ''{}''
      else ''{'' @ newline @ indentation (Suc level)
           @ join ('','' @ newline @ indentation (Suc level))
               (map (\<lambda>kv. quoteJSON (fst kv) @ '': '' @ stringify fmt (Suc level) (snd kv))
                  (filter (\<lambda>kv. snd kv \<noteq> JUndefined) (Object_entries ob)))
           @ newline @ indentation level @ ''}'')"
  by pat_completeness auto
termination
proof (relation "measure (\<lambda>(fmt, level, j). size j)")
  show "wf (measure (\<lambda>(fmt, level, j). size j))" by simp
next
  fix fmt :: "rat \<Rightarrow> string" and level :: nat and xs :: "json list" and x :: json
  assume "x \<in> set xs"
  then have "size x < Suc (size_list size xs)"
    by (induction xs) auto
  then show "((fmt, Suc level, x), (fmt, level, JArray xs)) \<in> measure (\<lambda>(fmt, level, j). size j)"
    by simp
next
  fix fmt :: "rat \<Rightarrow> string" and level :: nat and ob :: "(string \<times> json) list"
    and kv :: "string \<times> json"
  assume "kv \<in> set (filter (\<lambda>kv. snd kv \<noteq> JUndefined) (Object_entries ob))"
  then have "kv \<in> set ob" using Object_entries_subset by fastforce
  then have "size (snd kv) < Suc (size_list (size_prod (\<lambda>x. 0) size) ob)"
    by (induction ob) auto
  then show "((fmt, Suc level, snd kv), (fmt, level, JObject ob))
      \<in> measure (\<lambda>(fmt, level, j). size j)"
    by simp
qed

definition JSON_stringify :: "(rat \<Rightarrow> string) \<Rightarrow> json \<Rightarrow> string" where
  "JSON_stringify fmt v = stringify fmt 0 v"

subsection \<open>Tailwind theme extension\<close>

text \<open>\<open>slugify\<close> of \<open>token-transformer.ts\<close>.\<close>

definition slugify :: "string \<Rightarrow> string" where
  "slugify text_in =
     remove_outside isKeyChar (replace_runs isWhiteSpace ''-'' (toLowerCase text_in))"

text \<open>\<open>!fontFamilies[familyKey]\<close> is false when the key is an own property (its value is an
  array) or a property inherited from \<open>Object.prototype\<close>.\<close>

definition tailwind_fontFamilies :: "TypographyToken obj \<Rightarrow> json obj" where
  "tailwind_fontFamilies typography_in =
     foldl (\<lambda>fontFamilies kv.
              let familyKey = slugify (tt_fontFamily (snd kv)) in
              if familyKey \<in> set (map fst fontFamilies) \<or> inheritedProperty familyKey
              then fontFamilies
              else obj_set fontFamilies familyKey (JArray [JString (tt_fontFamily (snd kv))]))
       [] (Object_entries typography_in)"

definition tailwind_fontSizes :: "(rat \<Rightarrow> string) \<Rightarrow> TypographyToken obj \<Rightarrow> json obj" where
  "tailwind_fontSizes fmt typography_in =
     foldl (\<lambda>fontSizes kv.
              obj_set fontSizes (fst kv)
                (JArray [JString (numberToString fmt (tt_fontSize (snd kv)) @ ''px''),
                         JObject [(''lineHeight'',
                                   JString (lineHeightText fmt (tt_lineHeight (snd kv))))]]))
       [] (Object_entries typography_in)"

definition tailwind_colors :: "ColorToken obj \<Rightarrow> json obj" where
  "tailwind_colors colors_in =
     foldl (\<lambda>colors kv. obj_set colors (fst kv) (JString (ct_value (snd kv))))
       [] (Object_entries colors_in)"

definition tailwind_spacing :: "(rat \<Rightarrow> string) \<Rightarrow> SpacingToken obj \<Rightarrow> json obj" where
  "tailwind_spacing fmt spacing_in =
     foldl (\<lambda>spacing kv.
              obj_set spacing (fst kv) (JString (numberToString fmt (st_value (snd kv)) @ ''px'')))
       [] (Object_entries spacing_in)"

text \<open>The loop over the effects fills two objects, \<open>boxShadow\<close> and \<open>blur\<close>.\<close>

definition tailwind_effects :: "(rat \<Rightarrow> string) \<Rightarrow> EffectToken obj \<Rightarrow> json obj \<times> json obj" where
  "tailwind_effects fmt effects_in =
     foldl (\<lambda>acc kv.
              case et_type (snd kv) of
                Shadow \<Rightarrow>
                  (obj_set (fst acc) (fst kv) (JString (shadowText fmt (et_value (snd kv)))),
                   snd acc)
              | Blur \<Rightarrow>
                  (fst acc,
                   obj_set (snd acc) (fst kv) (JString (blurText fmt (et_value (snd kv)))))
              | Glow \<Rightarrow> acc)
       ([], []) (Object_entries effects_in)"

definition toTailwindConfig_config :: "(rat \<Rightarrow> string) \<Rightarrow> DesignTokens \<Rightarrow> json" where
  "toTailwindConfig_config fmt tokens =
     JObject [(''theme'', JObject [(''extend'', JObject
       [(''colors'', JObject (tailwind_colors (tk_colors tokens))),
        (''fontFamily'', JObject (tailwind_fontFamilies (tk_typography tokens))),
        (''fontSize'', JObject (tailwind_fontSizes fmt (tk_typography tokens))),
        (''fontWeight'', JObject []),
        (''lineHeight'', JObject []),
        (''letterSpacing'', JObject []),
        (''spacing'', JObject (tailwind_spacing fmt (tk_spacing tokens))),
        (''boxShadow'', JObject (fst (tailwind_effects fmt (tk_effects tokens)))),
        (''blur'', JObject (snd (tailwind_effects fmt (tk_effects tokens))))])])]"

text \<open>The array \<open>output\<close> and its \<open>join\<close>.\<close>

definition toTailwindConfig_lines :: "(rat \<Rightarrow> string) \<Rightarrow> DesignTokens \<Rightarrow> string list" where
  "toTailwindConfig_lines fmt tokens =
     [''/**'',
      '' * Origin OS Tailwind Design Tokens'',
      '' * Generated: '' @ md_lastSynced (tk_metadata tokens),
      '' * DO NOT EDIT MANUALLY - This file is auto-generated'',
      '' */'',
      '''',
      ''/** @type {import('' @ dquote @ ''tailwindcss'' @ dquote @ '').Config} */'',
      ''module.exports = '' @ JSON_stringify fmt (toTailwindConfig_config fmt tokens)]"

definition toTailwindConfig :: "(rat \<Rightarrow> string) \<Rightarrow> DesignTokens \<Rightarrow> string" where
  "toTailwindConfig fmt tokens = join newline (toTailwindConfig_lines fmt tokens)"

subsection \<open>The structured JSON document\<close>

definition optional_string :: "string option \<Rightarrow> json" where
  "optional_string x = (case x of None \<Rightarrow> JUndefined | Some s \<Rightarrow> JString s)"

definition json_colors :: "ColorToken obj \<Rightarrow> json obj" where
  "json_colors colors_in =
     foldl (\<lambda>ob kv.
              obj_set ob (fst kv)
                (JObject [(''$type'', JString ''color''),
                          (''$value'', JString (ct_value (snd kv))),
                          (''$description'',
                           JString (or_else (ct_description (snd kv)) (ct_name (snd kv))))]))
       [] (Object_entries colors_in)"

definition json_typography :: "(rat \<Rightarrow> string) \<Rightarrow> TypographyToken obj \<Rightarrow> json obj" where
  "json_typography fmt typography_in =
     foldl (\<lambda>ob kv.
              obj_set ob (fst kv)
                (JObject [(''$type'', JString ''typography''),
                          (''$value'', JObject
                             [(''fontFamily'', JString (tt_fontFamily (snd kv))),
                              (''fontSize'',
                               JString (numberToString fmt (tt_fontSize (snd kv)) @ ''px'')),
                              (''fontWeight'', JNumber (tt_fontWeight (snd kv))),
                              (''lineHeight'',
                               JString (lineHeightText fmt (tt_lineHeight (snd kv)))),
                              (''letterSpacing'',
                               JString (numberToString fmt (tt_letterSpacing (snd kv)) @ ''px''))]),
                          (''$description'',
                           JString (or_else (tt_description (snd kv)) (tt_name (snd kv))))]))
       [] (Object_entries typography_in)"

definition json_spacing :: "(rat \<Rightarrow> string) \<Rightarrow> SpacingToken obj \<Rightarrow> json obj" where
  "json_spacing fmt spacing_in =
     foldl (\<lambda>ob kv.
              obj_set ob (fst kv)
                (JObject [(''$type'', JString ''dimension''),
                          (''$value'',
                           JString (numberToString fmt (st_value (snd kv)) @ ''px'')),
                          (''$description'',
                           JString (or_else (st_description (snd kv)) (st_name (snd kv))))]))
       [] (Object_entries spacing_in)"

definition json_shadow :: "(rat \<Rightarrow> string) \<Rightarrow> EffectToken \<Rightarrow> json" where
  "json_shadow fmt effect =
     JObject [(''$type'', JString ''shadow''),
              (''$value'', JObject
                 [(''color'', optional_string (ev_color (et_value effect))),
                  (''offsetX'', JString (tmpl_num fmt (ev_offsetX (et_value effect)) @ ''px'')),
                  (''offsetY'', JString (tmpl_num fmt (ev_offsetY (et_value effect)) @ ''px'')),
                  (''blur'', JString (tmpl_num fmt (ev_blur (et_value effect)) @ ''px'')),
                  (''spread'', JString (tmpl_num fmt (ev_spread (et_value effect)) @ ''px''))]),
              (''$description'',
               JString (or_else (et_description effect) (et_name effect)))]"

definition json_effects :: "(rat \<Rightarrow> string) \<Rightarrow> EffectToken obj \<Rightarrow> json obj" where
  "json_effects fmt effects_in =
     foldl (\<lambda>ob kv.
              if et_type (snd kv) = Shadow then obj_set ob (fst kv) (json_shadow fmt (snd kv))
              else ob)
       [] (Object_entries effects_in)"

definition toJSON_output :: "(rat \<Rightarrow> string) \<Rightarrow> DesignTokens \<Rightarrow> json" where
  "toJSON_output fmt tokens =
     JObject
       [(''$schema'', JString ''https://design-tokens.github.io/community-group/format/''),
        (''$metadata'', JObject
           [(''generator'', JString ''origin-os-figma-sync''),
            (''version'', JString (md_version (tk_metadata tokens))),
            (''lastSynced'', JString (md_lastSynced (tk_metadata tokens))),
            (''source'', JObject
               [(''type'', JString ''figma''),
                (''fileKey'', optional_string (md_figmaFileKey (tk_metadata tokens)))])]),
        (''color'', JObject (json_colors (tk_colors tokens))),
        (''typography'', JObject (json_typography fmt (tk_typography tokens))),
        (''spacing'', JObject (json_spacing fmt (tk_spacing tokens))),
        (''effect'', JObject (json_effects fmt (tk_effects tokens)))]"

definition toJSON :: "(rat \<Rightarrow> string) \<Rightarrow> DesignTokens \<Rightarrow> string" where
  "toJSON fmt tokens = JSON_stringify fmt (toJSON_output fmt tokens)"

section \<open>The specification's wording\<close>

subsection \<open>The canonical key as the specification words it\<close>





subsection \<open>The hex triplet as the specification words it\<close>


subsection \<open>The style resolver as the specification words it\<close>

text \<open>The nodes of a tree in depth-first pre-order: a node, then the subtrees of its
  children from the first to the last.\<close>

fun preorder :: "Node \<Rightarrow> Node list"
  and preorder_children :: "Node list \<Rightarrow> Node list" where
  "preorder (Node nm st ch fl sty fx bb) =
     Node nm st ch fl sty fx bb # (case ch of None \<Rightarrow> [] | Some children \<Rightarrow> preorder_children children)"
| "preorder_children [] = []"
| "preorder_children (child # rest) = preorder child @ preorder_children rest"

text \<open>A node owns a style when some entry of its own style-bindings map has the identifier
  as its value.\<close>

definition ownsStyle :: "string \<Rightarrow> Node \<Rightarrow> bool" where
  "ownsStyle styleId node =
     (case node_styles node of None \<Rightarrow> False | Some st \<Rightarrow> styleId \<in> snd ` set st)"

section \<open>Sample data\<close>

subsection \<open>A sample document\<close>

text \<open>A small file for the concrete instances below: a swatch with a half-transparent red
  fill bound to the fill style \<open>1:2\<close>, a heading bound to the text style \<open>1:3\<close>, a card with a
  layer blur bound to the effect style \<open>1:4\<close>, a node bound to \<open>1:5\<close> whose list of fills and
  of effects is empty and that has no text style, and a node bound to \<open>1:6\<close> with a green
  fill that states no opacity.\<close>

definition sample_red :: FigmaColor where
  "sample_red = \<lparr>color_r = 1, color_g = 0, color_b = 0, color_a = Some 1\<rparr>"

definition sample_green :: FigmaColor where
  "sample_green = \<lparr>color_r = 0, color_g = 1, color_b = 0, color_a = Some 1\<rparr>"

definition sample_blue :: FigmaColor where
  "sample_blue = \<lparr>color_r = 0, color_g = 0, color_b = 1, color_a = Some 1\<rparr>"

definition sample_document :: Node where
  "sample_document =
     Node (Some ''Document'') None
       (Some [Node (Some ''Page 1'') None
          (Some [
             Node (Some ''Swatch'') (Some [(''fill'', ''1:2'')]) None
               (Some [\<lparr>fill_color = Some sample_red, fill_opacity = Some (1 / 2)\<rparr>])
               None None None,
             Node (Some ''Heading'') (Some [(''text'', ''1:3'')]) None None
               (Some \<lparr>fontFamily = ''Inter'', fontSize = 32, fontWeight = 700,
                       letterSpacing = 0, lineHeightPx = 40\<rparr>)
               None None,
             Node (Some ''Card'') (Some [(''effect'', ''1:4'')]) None None None
               (Some [\<lparr>fx_type = ''LAYER_BLUR'', fx_color = None, fx_offset = None,
                        fx_radius = 4, fx_spread = None\<rparr>])
               None,
             Node (Some ''Hollow'') (Some [(''fill'', ''1:5'')]) None (Some []) None (Some [])
               None,
             Node (Some ''Opaque'') (Some [(''fill'', ''1:6'')]) None
               (Some [\<lparr>fill_color = Some sample_green, fill_opacity = None\<rparr>])
               None None None])
          None None None None])
       None None None None"

definition sample_style :: "string \<Rightarrow> string \<Rightarrow> string \<Rightarrow> Style" where
  "sample_style kind name node =
     \<lparr>style_key = Some (''key-'' @ node), style_name = Some name, style_type = kind,
      style_description = None, style_node_id = node\<rparr>"

text \<open>Two entries without a name: one refers to a node that does not exist, the other to
  the node without payload.\<close>

definition sample_unnamed :: "string \<Rightarrow> string \<Rightarrow> Style" where
  "sample_unnamed kind node =
     \<lparr>style_key = None, style_name = None, style_type = kind,
      style_description = None, style_node_id = node\<rparr>"

definition sample_variable :: "string \<Rightarrow> FigmaColor obj \<Rightarrow> Variable" where
  "sample_variable name modes =
     \<lparr>var_resolvedType = ''COLOR'', var_name = Some name, var_description = None,
      var_valuesByMode = Some modes\<rparr>"

definition sample_file :: "Variable obj option \<Rightarrow> FileData" where
  "sample_file vars =
     \<lparr>file_document = sample_document, file_variables = vars, file_name = Some ''Design''\<rparr>"

subsection \<open>Sample token sets\<close>

definition sample_metadata :: Metadata where
  "sample_metadata =
     \<lparr>md_version = ''1.0.0'', md_lastSynced = ''2024-01-01T00:00:00.000Z'',
      md_figmaFileKey = Some ''abc123'', md_figmaFileName = Some ''Design''\<rparr>"

definition empty_tokens :: DesignTokens where
  "empty_tokens =
     \<lparr>tk_colors = [], tk_typography = [], tk_spacing = [], tk_effects = [],
      tk_metadata = sample_metadata\<rparr>"

definition sample_effect :: "EffectKind \<Rightarrow> string \<Rightarrow> EffectToken" where
  "sample_effect kind name =
     \<lparr>et_name = name, et_type = kind,
      et_value = \<lparr>ev_color = Some ''rgba(0, 0, 0, 1)'', ev_offsetX = Some 0, ev_offsetY = Some 2,
                  ev_blur = Some 4, ev_spread = Some 0\<rparr>,
      et_description = None, et_figmaId = None\<rparr>"

definition effect_tokens :: "EffectToken obj \<Rightarrow> DesignTokens" where
  "effect_tokens effs =
     \<lparr>tk_colors = [], tk_typography = [], tk_spacing = [], tk_effects = effs,
      tk_metadata = sample_metadata\<rparr>"

text \<open>For the samples, which hold integers only: a stand-in for the runtime's printing of
  the other numbers.\<close>

definition sample_fmt :: "rat \<Rightarrow> string" where
  "sample_fmt q = []"

definition color_tokens :: "ColorToken obj \<Rightarrow> DesignTokens" where
  "color_tokens cols =
     \<lparr>tk_colors = cols, tk_typography = [], tk_spacing = [], tk_effects = [],
      tk_metadata = sample_metadata\<rparr>"

section \<open>Verification\<close>

subsection \<open>Canonical keys\<close>













subsection \<open>Hex conversion\<close>







subsection \<open>The resolvers\<close>

lemma set_Object_entries: "set (Object_entries ob) = set ob"
  by (auto simp: Object_entries_def)

lemma stylesMatch_ownsStyle: "stylesMatch node styleId = ownsStyle styleId node"
  by (auto simp: stylesMatch_def ownsStyle_def list_ex_iff set_Object_entries
      split: option.splits)

lemma find_append_case:
  "find P (xs @ ys) = (case find P xs of None \<Rightarrow> find P ys | Some x \<Rightarrow> Some x)"
  by (induction xs) auto

lemma findNodeByStyleId_preorder:
  "findNodeByStyleId node styleId = find (ownsStyle styleId) (preorder node)"
  "findNodeByStyleId_children nodes styleId = find (ownsStyle styleId) (preorder_children nodes)"
proof (induction node styleId and nodes styleId
    rule: findNodeByStyleId_findNodeByStyleId_children.induct)
  case (1 nm st ch fl sty fx bb styleId)
  then show ?case
    by (cases ch) (simp_all add: stylesMatch_ownsStyle)
next
  case (2 styleId)
  then show ?case by simp
next
  case (3 child rest styleId)
  then show ?case
    by (simp add: find_append_case split: option.splits)
qed

text \<open>
  Claim C6. \<open>findNodeByStyleId\<close> returns the first node, in depth-first pre-order, whose own
  style-bindings map has an entry with the identifier as its value: the first match wins
  wherever later or shallower matches stand. It returns nothing exactly when no node of the
  tree matches.
\<close>

theorem findNodeByStyleId_first_in_preorder:
  "findNodeByStyleId tree styleId = find (ownsStyle styleId) (preorder tree)
   \<and> (findNodeByStyleId tree styleId = None
        \<longleftrightarrow> (\<forall>n \<in> set (preorder tree). \<not> ownsStyle styleId n))"
  by (auto simp add: findNodeByStyleId_preorder find_None_iff)

theorem findNodeByStyleId_first_in_preorder_witness:
  "findNodeByStyleId
     (Node (Some ''Document'') None
        (Some [Node (Some ''Page'') (Some []) 
                 (Some [Node (Some ''Deep'') (Some [(''fill'', ''S:1'')]) None None None None None])
                 None None None None,
               Node (Some ''Shallow'') (Some [(''text'', ''S:2''), (''fill'', ''S:1'')]) None None None None None])
        None None None None) ''S:1''
   = Some (Node (Some ''Deep'') (Some [(''fill'', ''S:1'')]) None None None None None)
   \<and> findNodeByStyleId
     (Node (Some ''Document'') None
        (Some [Node (Some ''Page'') (Some []) None None None None None])
        None None None None) ''S:1'' = None"
  using findNodeByStyleId_first_in_preorder[of "Node (Some ''Document'') None
        (Some [Node (Some ''Page'') (Some []) 
                 (Some [Node (Some ''Deep'') (Some [(''fill'', ''S:1'')]) None None None None None])
                 None None None None,
               Node (Some ''Shallow'') (Some [(''text'', ''S:2''), (''fill'', ''S:1'')]) None None None None None])
        None None None None" "''S:1''"]
   findNodeByStyleId_first_in_preorder[of "Node (Some ''Document'') None
        (Some [Node (Some ''Page'') (Some []) None None None None None])
        None None None None" "''S:1''"]
  by (simp add: ownsStyle_def)

lemma findNodeByName_preorder:
  "findNodeByName node name = find (\<lambda>n. nameMatches n name) (preorder node)"
  "findNodeByName_children nodes name = find (\<lambda>n. nameMatches n name) (preorder_children nodes)"
proof (induction node name and nodes name rule: findNodeByName_findNodeByName_children.induct)
  case (1 nm st ch fl sty fx bb name)
  then show ?case by (cases ch) simp_all
next
  case (2 name)
  then show ?case by simp
next
  case (3 child rest name)
  then show ?case by (simp add: find_append_case split: option.splits)
qed

subsection \<open>Spacing\<close>

lemma extractSpacing_children_no_box:
  "\<forall>child \<in> set children. node_absoluteBoundingBox child = None \<Longrightarrow>
     extractSpacing_children spacing children = Inr spacing"
  by (induction children) auto

lemma Object_keys_Nil: "Object_keys [] = []"
  by (simp add: Object_keys_def Object_entries_def)

text \<open>
  Claim C3. When the document has no node whose name is, case-insensitively, \<open>Spacing\<close>, and
  also when the container found has no child with a bounding box, \<open>extractSpacing\<close> returns
  the fixed default: fourteen tokens keyed \<open>space-0\<close> to \<open>space-13\<close>, enumerated in the order
  of their insertion, with the values 0, 4, 8, 12, 16, 20, 24, 32, 40, 48, 64, 80, 96, 128.
  Nothing else of the source enters the result.
\<close>

theorem extractSpacing_fallback:
  assumes "(\<forall>n \<in> set (preorder (file_document fileData)). \<not> nameMatches n ''Spacing'')
     \<or> (case findNodeByName (file_document fileData) ''Spacing'' of
          None \<Rightarrow> False
        | Some spacingFrame \<Rightarrow>
            (\<forall>child \<in> set (case node_children spacingFrame of None \<Rightarrow> [] | Some cs \<Rightarrow> cs).
               node_absoluteBoundingBox child = None))"
  shows "extractSpacing fileData = Inr (extractSpacing_default [] 0 defaultScale)
    \<and> map (\<lambda>kv. (fst kv, st_value (snd kv)))
          (Object_entries (extractSpacing_default [] 0 defaultScale)) =
        [(''space-0'', 0), (''space-1'', 4), (''space-2'', 8), (''space-3'', 12),
         (''space-4'', 16), (''space-5'', 20), (''space-6'', 24), (''space-7'', 32),
         (''space-8'', 40), (''space-9'', 48), (''space-10'', 64), (''space-11'', 80),
         (''space-12'', 96), (''space-13'', 128)]
    \<and> Object_entries (extractSpacing_default [] 0 defaultScale) =
        extractSpacing_default [] 0 defaultScale"
proof -
  have found: "(case (case findNodeByName (file_document fileData) ''Spacing'' of
              None \<Rightarrow> Inr []
            | Some spacingFrame \<Rightarrow>
                (case node_children spacingFrame of
                   None \<Rightarrow> Inr []
                 | Some children \<Rightarrow> extractSpacing_children [] children)) of
            Inl e \<Rightarrow> False | Inr s \<Rightarrow> s = [])"
    using assms
  proof
    assume "\<forall>n \<in> set (preorder (file_document fileData)). \<not> nameMatches n ''Spacing''"
    then have "findNodeByName (file_document fileData) ''Spacing'' = None"
      by (simp add: findNodeByName_preorder find_None_iff)
    then show ?thesis by simp
  next
    assume "case findNodeByName (file_document fileData) ''Spacing'' of
          None \<Rightarrow> False
        | Some spacingFrame \<Rightarrow>
            (\<forall>child \<in> set (case node_children spacingFrame of None \<Rightarrow> [] | Some cs \<Rightarrow> cs).
               node_absoluteBoundingBox child = None)"
    then show ?thesis
      by (auto simp: extractSpacing_children_no_box split: option.splits)
  qed
  then have "extractSpacing fileData = Inr (extractSpacing_default [] 0 defaultScale)"
    unfolding extractSpacing_def by (auto simp: Object_keys_Nil split: sum.splits)
  moreover have "map (\<lambda>kv. (fst kv, st_value (snd kv)))
          (Object_entries (extractSpacing_default [] 0 defaultScale)) =
        [(''space-0'', 0), (''space-1'', 4), (''space-2'', 8), (''space-3'', 12),
         (''space-4'', 16), (''space-5'', 20), (''space-6'', 24), (''space-7'', 32),
         (''space-8'', 40), (''space-9'', 48), (''space-10'', 64), (''space-11'', 80),
         (''space-12'', 96), (''space-13'', 128)]"
    by code_simp
  moreover have "Object_entries (extractSpacing_default [] 0 defaultScale) =
        extractSpacing_default [] 0 defaultScale"
    by code_simp
  ultimately show ?thesis by blast
qed


theorem extractSpacing_fallback_witness:
  "extractSpacing
     \<lparr> file_document =
         Node (Some ''Document'') None
           (Some [Node (Some ''Spacing scale'') None
                    (Some [Node (Some ''8'') None None None None None
                             (Some \<lparr>box_width = 8\<rparr>)])
                    None None None None])
           None None None None,
       file_variables = None, file_name = Some ''Design System'' \<rparr>
     = Inr (extractSpacing_default [] 0 defaultScale)
   \<and> extractSpacing
     \<lparr> file_document =
         Node (Some ''Document'') None
           (Some [Node (Some ''SPACING'') None
                    (Some [Node (Some ''8'') None None None None None None])
                    None None None None,
                  Node (Some ''Spacing'') None
                    (Some [Node (Some ''16'') None None None None None
                             (Some \<lparr>box_width = 16\<rparr>)])
                    None None None None])
           None None None None,
       file_variables = None, file_name = None \<rparr>
     = Inr (extractSpacing_default [] 0 defaultScale)"
proof -
  let ?f1 = "\<lparr> file_document =
         Node (Some ''Document'') None
           (Some [Node (Some ''Spacing scale'') None
                    (Some [Node (Some ''8'') None None None None None
                             (Some \<lparr>box_width = 8\<rparr>)])
                    None None None None])
           None None None None,
       file_variables = None, file_name = Some ''Design System'' \<rparr>"
  let ?f2 = "\<lparr> file_document =
         Node (Some ''Document'') None
           (Some [Node (Some ''SPACING'') None
                    (Some [Node (Some ''8'') None None None None None None])
                    None None None None,
                  Node (Some ''Spacing'') None
                    (Some [Node (Some ''16'') None None None None None
                             (Some \<lparr>box_width = 16\<rparr>)])
                    None None None None])
           None None None None,
       file_variables = None, file_name = None \<rparr>"
  have h1: "\<forall>n \<in> set (preorder (file_document ?f1)). \<not> nameMatches n ''Spacing''"
    by code_simp
  have h2: "case findNodeByName (file_document ?f2) ''Spacing'' of
          None \<Rightarrow> False
        | Some spacingFrame \<Rightarrow>
            (\<forall>child \<in> set (case node_children spacingFrame of None \<Rightarrow> [] | Some cs \<Rightarrow> cs).
               node_absoluteBoundingBox child = None)"
    by code_simp
  show ?thesis
    using extractSpacing_fallback[of ?f1] extractSpacing_fallback[of ?f2] h1 h2 by blast
qed

subsection \<open>Keys and property assignment\<close>

lemma set_replace_runs: "set (replace_runs p r s) \<subseteq> set r \<union> set s"
proof (induction p r s rule: replace_runs.induct)
  case (1 p r)
  then show ?case by simp
next
  case (2 p r c cs)
  have "set (dropWhile p cs) \<subseteq> set cs" by (auto dest: set_dropWhileD)
  then show ?case using 2 by (cases "p c") auto
qed

lemma set_replace_edge_hyphens: "set (replace_edge_hyphens b s) \<subseteq> set s"
  by (induction b s rule: replace_edge_hyphens.induct) auto

lemma isKeyChar_hyphen: "isKeyChar CHR ''-''"
  by code_simp

lemma tokenizeName_chars: "c \<in> set (tokenizeName name) \<Longrightarrow> isKeyChar c"
proof -
  assume "c \<in> set (tokenizeName name)"
  then have "c \<in> set (replace_runs isHyphen ''-''
         (remove_outside isKeyChar
           (replace_runs isWhiteSpace ''-''
             (replace_char CHR ''/'' CHR ''-'' (toLowerCase name)))))"
    unfolding tokenizeName_def using set_replace_edge_hyphens by blast
  then have "c = CHR ''-'' \<or> c \<in> set (remove_outside isKeyChar
           (replace_runs isWhiteSpace ''-''
             (replace_char CHR ''/'' CHR ''-'' (toLowerCase name))))"
    using set_replace_runs[of isHyphen "''-''"] by auto
  then show ?thesis by (auto simp: remove_outside_def isKeyChar_hyphen)
qed

lemma tokenizeName_not_proto: "tokenizeName name \<noteq> ''__proto__''"
proof
  assume "tokenizeName name = ''__proto__''"
  then have "CHR ''_'' \<in> set (tokenizeName name)" by simp
  then have "isKeyChar CHR ''_''" by (rule tokenizeName_chars)
  moreover have "\<not> isKeyChar CHR ''_''" by code_simp
  ultimately show False by simp
qed

lemma obj_get_obj_set:
  "k \<noteq> ''__proto__'' \<Longrightarrow> obj_get (obj_set ob k v) k' = (if k' = k then Some v else obj_get ob k')"
  by (simp add: obj_get_def obj_set_def update_conv')

lemma set_obj_set: "set (obj_set ob k v) \<subseteq> insert (k, v) (set ob)"
  unfolding obj_set_def by (induction ob) auto

lemma keys_obj_set:
  "k \<noteq> ''__proto__'' \<Longrightarrow> fst ` set (obj_set ob k v) = insert k (fst ` set ob)"
  by (simp add: obj_set_def dom_update)

lemma distinct_obj_set: "distinct (map fst ob) \<Longrightarrow> distinct (map fst (obj_set ob k v))"
  by (simp add: obj_set_def distinct_update)

subsection \<open>Color extraction\<close>

text \<open>A variable writes a token when it is a color variable with a value under its first
  mode key.\<close>

lemma extractColorVariables_loop_untouched:
  "extractColorVariables_loop colors vars = Inr colors' \<Longrightarrow>
   (\<forall>(vid, v) \<in> set vars. \<forall>nm.
       var_resolvedType v = ''COLOR'' \<and> var_name v = Some nm \<and> firstModeValue v \<noteq> None
       \<longrightarrow> tokenizeName nm \<noteq> k) \<Longrightarrow>
   obj_get colors' k = obj_get colors k"
proof (induction colors vars rule: extractColorVariables_loop.induct)
  case (1 colors)
  then show ?case by simp
next
  case (2 colors vid variable rest)
  show ?case
  proof (cases "var_resolvedType variable = ''COLOR''")
    case False
    then show ?thesis using 2 by simp
  next
    case True
    then obtain nm where nm: "var_name variable = Some nm"
      using 2(4) by (cases "var_name variable") auto
    show ?thesis
    proof (cases "firstModeValue variable")
      case None
      then show ?thesis using 2 True nm by simp
    next
      case (Some color)
      then have "tokenizeName nm \<noteq> k" using 2(5) True nm by auto
      then show ?thesis
        using 2 True nm Some by (simp add: obj_get_obj_set tokenizeName_not_proto)
    qed
  qed
qed

lemma extractColorVariables_loop_last:
  "extractColorVariables_loop colors (pre @ (vid, v) # post) = Inr colors' \<Longrightarrow>
   var_resolvedType v = ''COLOR'' \<Longrightarrow> var_name v = Some nm \<Longrightarrow>
   firstModeValue v = Some color \<Longrightarrow>
   (\<forall>(vid', v') \<in> set post. \<forall>nm'.
       var_resolvedType v' = ''COLOR'' \<and> var_name v' = Some nm' \<and> firstModeValue v' \<noteq> None
       \<longrightarrow> tokenizeName nm' \<noteq> tokenizeName nm) \<Longrightarrow>
   obj_get colors' (tokenizeName nm) = Some (variableColorToken vid v nm color)"
proof (induction pre arbitrary: colors)
  case Nil
  then have "extractColorVariables_loop
      (obj_set colors (tokenizeName nm) (variableColorToken vid v nm color)) post = Inr colors'"
    by simp
  then have "obj_get colors' (tokenizeName nm) =
      obj_get (obj_set colors (tokenizeName nm) (variableColorToken vid v nm color)) (tokenizeName nm)"
    using Nil(5) by (rule extractColorVariables_loop_untouched)
  then show ?case by (simp add: obj_get_obj_set tokenizeName_not_proto)
next
  case (Cons p pre)
  obtain vid0 v0 where p: "p = (vid0, v0)" by (cases p)
  from Cons(2) obtain colors0 where
    "extractColorVariables_loop colors0 (pre @ (vid, v) # post) = Inr colors'"
    unfolding p by (auto split: if_splits option.splits)
  then show ?case using Cons by blast
qed

lemma extractColorVariables_loop_keeps_no_opacity:
  "extractColorVariables_loop colors vars = Inr colors' \<Longrightarrow>
   (\<exists>tok. obj_get colors k = Some tok \<and> ct_opacity tok = None) \<Longrightarrow>
   (\<exists>tok. obj_get colors' k = Some tok \<and> ct_opacity tok = None)"
proof (induction colors vars rule: extractColorVariables_loop.induct)
  case (1 colors)
  then show ?case by simp
next
  case (2 colors vid variable rest)
  show ?case
  proof (cases "var_resolvedType variable = ''COLOR''")
    case False
    then show ?thesis using 2 by simp
  next
    case True
    then obtain nm where nm: "var_name variable = Some nm"
      using 2(4) by (cases "var_name variable") auto
    show ?thesis
    proof (cases "firstModeValue variable")
      case None
      then show ?thesis using 2 True nm by simp
    next
      case (Some color)
      have "\<exists>tok. obj_get (obj_set colors (tokenizeName nm)
                (variableColorToken vid variable nm color)) k = Some tok \<and> ct_opacity tok = None"
        using 2(5) by (simp add: obj_get_obj_set tokenizeName_not_proto variableColorToken_def)
      then show ?thesis using 2 True nm Some by simp
    qed
  qed
qed

lemma extractColorVariables_loop_no_opacity:
  "extractColorVariables_loop colors vars = Inr colors' \<Longrightarrow>
   (vid, v) \<in> set vars \<Longrightarrow> var_resolvedType v = ''COLOR'' \<Longrightarrow> var_name v = Some nm \<Longrightarrow>
   firstModeValue v \<noteq> None \<Longrightarrow>
   \<exists>tok. obj_get colors' (tokenizeName nm) = Some tok \<and> ct_opacity tok = None"
proof (induction colors vars rule: extractColorVariables_loop.induct)
  case (1 colors)
  then show ?case by simp
next
  case (2 colors vid0 variable rest)
  show ?case
  proof (cases "(vid, v) = (vid0, variable)")
    case True
    obtain color where color: "firstModeValue v = Some color" using 2(8) by auto
    let ?c = "obj_set colors (tokenizeName nm) (variableColorToken vid v nm color)"
    have run: "extractColorVariables_loop ?c rest = Inr colors'"
      using 2(4) True 2(6) 2(7) color by simp
    have "\<exists>tok. obj_get ?c (tokenizeName nm) = Some tok \<and> ct_opacity tok = None"
      by (simp add: obj_get_obj_set tokenizeName_not_proto variableColorToken_def)
    with run show ?thesis by (rule extractColorVariables_loop_keeps_no_opacity)
  next
    case False
    then have mem: "(vid, v) \<in> set rest" using 2(5) by auto
    show ?thesis
    proof (cases "var_resolvedType variable = ''COLOR''")
      case False
      then show ?thesis using 2 mem by simp
    next
      case True
      then obtain nm0 where nm0: "var_name variable = Some nm0"
        using 2(4) by (cases "var_name variable") auto
      show ?thesis
      proof (cases "firstModeValue variable")
        case None
        then show ?thesis using 2 True nm0 mem by simp
      next
        case (Some color0)
        then show ?thesis using 2 True nm0 mem by simp
      qed
    qed
  qed
qed

lemma extractColors_styles_tokens:
  "extractColors_styles doc colors styles = Inr colors' \<Longrightarrow> (k, t) \<in> set colors' \<Longrightarrow>
   (k, t) \<in> set colors \<or>
   (\<exists>style nm fill color. style \<in> set styles
      \<and> firstFillColor (findNodeByStyleId doc (style_node_id style)) = Some (fill, color)
      \<and> style_name style = Some nm \<and> k = tokenizeName nm
      \<and> t = styleColorToken style nm fill color)"
proof (induction doc colors styles rule: extractColors_styles.induct)
  case (1 doc colors)
  then show ?case by simp
next
  case (2 doc colors style rest)
  show ?case
  proof (cases "firstFillColor (findNodeByStyleId doc (style_node_id style))")
    case None
    then show ?thesis using 2 by auto
  next
    case (Some fc)
    obtain fill color where fc: "fc = (fill, color)" by (cases fc)
    obtain nm where nm: "style_name style = Some nm"
      using "2.prems"(1) Some fc by (cases "style_name style") auto
    let ?c = "obj_set colors (tokenizeName nm) (styleColorToken style nm fill color)"
    have run: "extractColors_styles doc ?c rest = Inr colors'"
      using "2.prems"(1) Some fc nm by simp
    have "(k, t) \<in> set ?c \<or>
      (\<exists>style nm fill color. style \<in> set rest
      \<and> firstFillColor (findNodeByStyleId doc (style_node_id style)) = Some (fill, color)
      \<and> style_name style = Some nm \<and> k = tokenizeName nm
      \<and> t = styleColorToken style nm fill color)"
      using "2.IH"(2)[OF Some fc[symmetric] nm run "2.prems"(2)] .
    then show ?thesis
    proof
      assume "(k, t) \<in> set ?c"
      then have "(k, t) = (tokenizeName nm, styleColorToken style nm fill color) \<or> (k, t) \<in> set colors"
        using set_obj_set by fastforce
      then show ?thesis using Some fc nm by auto
    next
      assume "\<exists>style nm fill color. style \<in> set rest
      \<and> firstFillColor (findNodeByStyleId doc (style_node_id style)) = Some (fill, color)
      \<and> style_name style = Some nm \<and> k = tokenizeName nm
      \<and> t = styleColorToken style nm fill color"
      then show ?thesis by auto
    qed
  qed
qed

text \<open>
  Claim C4, as amended. When extraction succeeds and a color variable has a value under the
  first mode key of its \<open>valuesByMode\<close> map, and no later color variable (in the enumeration
  order of the variables object) with such a value tokenizes to the same key, then the final
  colors map holds under that key the token derived from that variable, whether or not a fill
  style wrote the key before; the token's value is the hex conversion of that first-mode
  value.
\<close>

theorem extractColors_variable_overwrites:
  assumes "extractColors fileData styles = Inr colors"
    and "file_variables fileData = Some vars"
    and "Object_entries vars = pre @ (vid, v) # post"
    and "var_resolvedType v = ''COLOR''"
    and "var_name v = Some nm"
    and "var_valuesByMode v = Some modes"
    and "Object_keys modes = mode # others"
    and "obj_get modes mode = Some color"
    and "\<forall>(vid', v') \<in> set post. \<forall>nm'.
       var_resolvedType v' = ''COLOR'' \<and> var_name v' = Some nm' \<and> firstModeValue v' \<noteq> None
       \<longrightarrow> tokenizeName nm' \<noteq> tokenizeName nm"
  shows "obj_get colors (tokenizeName nm) =
      Some \<lparr>ct_name = nm, ct_value = figmaColorToHex color, ct_opacity = None,
            ct_description = var_description v, ct_figmaId = Some vid\<rparr>"
proof -
  have fm: "firstModeValue v = Some color"
    using assms(6-8) by (simp add: firstModeValue_def)
  obtain colors0 where
    "extractColorVariables_loop colors0 (pre @ (vid, v) # post) = Inr colors"
    using assms(1-3) by (auto simp: extractColors_def extractColorVariables_def split: sum.splits)
  then have "obj_get colors (tokenizeName nm) = Some (variableColorToken vid v nm color)"
    using assms(4,5) fm assms(9) by (rule extractColorVariables_loop_last)
  then show ?thesis by (simp add: variableColorToken_def)
qed

theorem extractColors_variable_overwrites_witness:
  "extractColors
     (sample_file (Some [(''VariableID:7'',
        sample_variable ''brand primary'' [(''1:0'', sample_blue), (''1:1'', sample_green)])]))
     [sample_style ''FILL'' ''Brand/Primary'' ''1:2'']
   = Inr [(''brand-primary'',
          \<lparr>ct_name = ''brand primary'', ct_value = ''#0000ff'', ct_opacity = None,
           ct_description = None, ct_figmaId = Some ''VariableID:7''\<rparr>)]
   \<and> extractColors (sample_file None) [sample_style ''FILL'' ''Brand/Primary'' ''1:2'']
   = Inr [(''brand-primary'',
          \<lparr>ct_name = ''Brand/Primary'', ct_value = ''#ff0000'', ct_opacity = Some (1 / 2),
           ct_description = None, ct_figmaId = Some ''key-1:2''\<rparr>)]
   \<and> obj_get [(''brand-primary'',
          \<lparr>ct_name = ''brand primary'', ct_value = ''#0000ff'', ct_opacity = None,
           ct_description = None, ct_figmaId = Some ''VariableID:7''\<rparr>)] ''brand-primary''
     = Some \<lparr>ct_name = ''brand primary'', ct_value = ''#0000ff'', ct_opacity = None,
            ct_description = None, ct_figmaId = Some ''VariableID:7''\<rparr>"
proof -
  let ?v = "sample_variable ''brand primary'' [(''1:0'', sample_blue), (''1:1'', sample_green)]"
  let ?vars = "[(''VariableID:7'', ?v)]"
  let ?colors = "[(''brand-primary'',
          \<lparr>ct_name = ''brand primary'', ct_value = ''#0000ff'', ct_opacity = None,
           ct_description = None, ct_figmaId = Some ''VariableID:7''\<rparr>)]"
  have run: "extractColors (sample_file (Some ?vars)) [sample_style ''FILL'' ''Brand/Primary'' ''1:2'']
      = Inr ?colors"
    by code_simp
  have style_only: "extractColors (sample_file None) [sample_style ''FILL'' ''Brand/Primary'' ''1:2'']
   = Inr [(''brand-primary'',
          \<lparr>ct_name = ''Brand/Primary'', ct_value = ''#ff0000'', ct_opacity = Some (1 / 2),
           ct_description = None, ct_figmaId = Some ''key-1:2''\<rparr>)]"
    by code_simp
  have h2: "file_variables (sample_file (Some ?vars)) = Some ?vars"
    by (simp add: sample_file_def)
  have h3: "Object_entries ?vars = [] @ (''VariableID:7'', ?v) # []" by code_simp
  have h4: "var_resolvedType ?v = ''COLOR''" by (simp add: sample_variable_def)
  have h5: "var_name ?v = Some ''brand primary''" by (simp add: sample_variable_def)
  have h6: "var_valuesByMode ?v = Some [(''1:0'', sample_blue), (''1:1'', sample_green)]"
    by (simp add: sample_variable_def)
  have h7: "Object_keys [(''1:0'', sample_blue), (''1:1'', sample_green)] = ''1:0'' # [''1:1'']"
    by code_simp
  have h8: "obj_get [(''1:0'', sample_blue), (''1:1'', sample_green)] ''1:0'' = Some sample_blue"
    by (simp add: obj_get_def)
  have h9: "\<forall>(vid', v') \<in> set []. \<forall>nm'.
       var_resolvedType v' = ''COLOR'' \<and> var_name v' = Some nm' \<and> firstModeValue v' \<noteq> None
       \<longrightarrow> tokenizeName nm' \<noteq> tokenizeName ''brand primary''"
    by simp
  from extractColors_variable_overwrites[OF run h2 h3 h4 h5 h6 h7 h8 h9] run style_only
  show ?thesis by (simp add: obj_get_def)
qed


text \<open>
  Claim C4 as stated fails. The fill style \<open>Primary\<close> and the color variables
  \<open>VariableID:1\<close> (green), \<open>VariableID:2\<close> (blue) and \<open>VariableID:3\<close> (no mode values) all
  tokenize to \<open>primary\<close>; the final map holds the token of \<open>VariableID:2\<close>, not a token
  derived from \<open>VariableID:1\<close>, whose value would be \<open>#00ff00\<close>, nor one derived from
  \<open>VariableID:3\<close>. With \<open>VariableID:3\<close> as the only variable, the final map holds the
  token of the style.
\<close>

theorem extractColors_collision_counterexample:
  "tokenizeName ''Primary'' = ''primary''
   \<and> tokenizeName ''PRIMARY'' = ''primary''
   \<and> tokenizeName ''primary'' = ''primary''
   \<and> figmaColorToHex sample_green = ''#00ff00''
   \<and> extractColors
       (sample_file (Some
          [(''VariableID:1'', sample_variable ''Primary'' [(''1:0'', sample_green)]),
           (''VariableID:2'', sample_variable ''primary'' [(''1:0'', sample_blue)]),
           (''VariableID:3'', sample_variable ''PRIMARY'' [])]))
       [sample_style ''FILL'' ''Primary'' ''1:2'']
     = Inr [(''primary'',
            \<lparr>ct_name = ''primary'', ct_value = ''#0000ff'', ct_opacity = None,
             ct_description = None, ct_figmaId = Some ''VariableID:2''\<rparr>)]
   \<and> extractColors
       (sample_file (Some [(''VariableID:3'', sample_variable ''PRIMARY'' [])]))
       [sample_style ''FILL'' ''Primary'' ''1:2'']
     = Inr [(''primary'',
            \<lparr>ct_name = ''Primary'', ct_value = ''#ff0000'', ct_opacity = Some (1 / 2),
             ct_description = None, ct_figmaId = Some ''key-1:2''\<rparr>)]"
  by code_simp

text \<open>
  Claim C10. A token written by \<open>extractColorVariables\<close> has no opacity: after a successful
  extraction, the key of every color variable that has a first-mode value holds a token
  without opacity, whatever a fill style had stored there. Every token of the loop over
  the fill styles carries an opacity: the opacity of the first fill, and 1 when that fill
  states none.
\<close>

theorem color_opacity_by_source:
  "(extractColors fileData styles = Inr colors \<and> file_variables fileData = Some vars
      \<and> (vid, v) \<in> set (Object_entries vars) \<and> var_resolvedType v = ''COLOR''
      \<and> var_name v = Some nm \<and> firstModeValue v \<noteq> None
    \<longrightarrow> (\<exists>tok. obj_get colors (tokenizeName nm) = Some tok \<and> ct_opacity tok = None))
   \<and> ct_opacity (variableColorToken vid v nm color) = None
   \<and> (extractColors_styles doc [] fillStyles = Inr styleColors \<and> (k, t) \<in> set styleColors
    \<longrightarrow> (\<exists>style name fill c. style \<in> set fillStyles
          \<and> firstFillColor (findNodeByStyleId doc (style_node_id style)) = Some (fill, c)
          \<and> style_name style = Some name \<and> k = tokenizeName name
          \<and> t = styleColorToken style name fill c
          \<and> ct_opacity t = Some (case fill_opacity fill of None \<Rightarrow> 1 | Some x \<Rightarrow> x)))"
proof (intro conjI impI)
  assume a: "extractColors fileData styles = Inr colors \<and> file_variables fileData = Some vars
      \<and> (vid, v) \<in> set (Object_entries vars) \<and> var_resolvedType v = ''COLOR''
      \<and> var_name v = Some nm \<and> firstModeValue v \<noteq> None"
  then obtain colors0 where
    "extractColorVariables_loop colors0 (Object_entries vars) = Inr colors"
    by (auto simp: extractColors_def extractColorVariables_def split: sum.splits)
  then show "\<exists>tok. obj_get colors (tokenizeName nm) = Some tok \<and> ct_opacity tok = None"
    using a extractColorVariables_loop_no_opacity by blast
next
  show "ct_opacity (variableColorToken vid v nm color) = None"
    by (simp add: variableColorToken_def)
next
  assume "extractColors_styles doc [] fillStyles = Inr styleColors \<and> (k, t) \<in> set styleColors"
  then have "\<exists>style nm fill color. style \<in> set fillStyles
      \<and> firstFillColor (findNodeByStyleId doc (style_node_id style)) = Some (fill, color)
      \<and> style_name style = Some nm \<and> k = tokenizeName nm
      \<and> t = styleColorToken style nm fill color"
    using extractColors_styles_tokens[of doc "[]" fillStyles styleColors k t] by simp
  then show "\<exists>style name fill c. style \<in> set fillStyles
          \<and> firstFillColor (findNodeByStyleId doc (style_node_id style)) = Some (fill, c)
          \<and> style_name style = Some name \<and> k = tokenizeName name
          \<and> t = styleColorToken style name fill c
          \<and> ct_opacity t = Some (case fill_opacity fill of None \<Rightarrow> 1 | Some x \<Rightarrow> x)"
    by (auto simp: styleColorToken_def)
qed

theorem color_opacity_by_source_witness:
  "map (\<lambda>kv. (fst kv, ct_opacity (snd kv)))
     (case extractColors (sample_file None)
             [sample_style ''FILL'' ''Brand/Primary'' ''1:2'',
              sample_style ''FILL'' ''Brand/Accent'' ''1:6''] of
        Inl e \<Rightarrow> [] | Inr colors \<Rightarrow> colors)
   = [(''brand-primary'', Some (1 / 2)), (''brand-accent'', Some 1)]
   \<and> map (\<lambda>kv. (fst kv, ct_opacity (snd kv)))
     (case extractColors
             (sample_file (Some [(''VariableID:7'',
                sample_variable ''brand primary'' [(''1:0'', sample_blue)])]))
             [sample_style ''FILL'' ''Brand/Primary'' ''1:2'',
              sample_style ''FILL'' ''Brand/Accent'' ''1:6''] of
        Inl e \<Rightarrow> [] | Inr colors \<Rightarrow> colors)
   = [(''brand-primary'', None), (''brand-accent'', Some 1)]"
proof -
  let ?styles = "[sample_style ''FILL'' ''Brand/Primary'' ''1:2'',
              sample_style ''FILL'' ''Brand/Accent'' ''1:6'']"
  let ?v = "sample_variable ''brand primary'' [(''1:0'', sample_blue)]"
  let ?file = "sample_file (Some [(''VariableID:7'', ?v)])"
  let ?final = "[(''brand-primary'',
          \<lparr>ct_name = ''brand primary'', ct_value = ''#0000ff'', ct_opacity = None,
           ct_description = None, ct_figmaId = Some ''VariableID:7''\<rparr>),
        (''brand-accent'',
          \<lparr>ct_name = ''Brand/Accent'', ct_value = ''#00ff00'', ct_opacity = Some 1,
           ct_description = None, ct_figmaId = Some ''key-1:6''\<rparr>)]"
  let ?t = "\<lparr>ct_name = ''Brand/Primary'', ct_value = ''#ff0000'', ct_opacity = Some (1 / 2),
           ct_description = None, ct_figmaId = Some ''key-1:2''\<rparr>"
  let ?plain = "[(''brand-primary'', ?t),
        (''brand-accent'',
          \<lparr>ct_name = ''Brand/Accent'', ct_value = ''#00ff00'', ct_opacity = Some 1,
           ct_description = None, ct_figmaId = Some ''key-1:6''\<rparr>)]"
  have run: "extractColors ?file ?styles = Inr ?final" by code_simp
  have plain: "extractColors (sample_file None) ?styles = Inr ?plain" by code_simp
  have loop: "extractColors_styles sample_document [] ?styles = Inr ?plain" by code_simp
  have hyp1: "extractColors ?file ?styles = Inr ?final
      \<and> file_variables ?file = Some [(''VariableID:7'', ?v)]
      \<and> (''VariableID:7'', ?v) \<in> set (Object_entries [(''VariableID:7'', ?v)])
      \<and> var_resolvedType ?v = ''COLOR''
      \<and> var_name ?v = Some ''brand primary'' \<and> firstModeValue ?v \<noteq> None"
    using run by (simp add: sample_file_def sample_variable_def set_Object_entries
        firstModeValue_def Object_keys_def Object_entries_def isArrayIndex_def isDigit_def
        obj_get_def)
  have hyp2: "extractColors_styles sample_document [] ?styles = Inr ?plain
      \<and> (''brand-primary'', ?t) \<in> set ?plain"
    using loop by simp
  note inst = color_opacity_by_source[of ?file ?styles ?final "[(''VariableID:7'', ?v)]"
      "''VariableID:7''" ?v "''brand primary''" sample_blue sample_document ?styles ?plain
      "''brand-primary''" ?t]
  have "\<exists>tok. obj_get ?final (tokenizeName ''brand primary'') = Some tok \<and> ct_opacity tok = None"
    using inst hyp1 by blast
  then show ?thesis using run plain by simp
qed

subsection \<open>Entries without a node or without payload\<close>

lemma extractColors_styles_skip:
  "firstFillColor (findNodeByStyleId doc (style_node_id bad)) = None \<Longrightarrow>
   extractColors_styles doc colors (pre @ bad # post) = extractColors_styles doc colors (pre @ post)"
  by (induction pre arbitrary: colors) (auto split: option.splits)

lemma extractTypography_styles_skip:
  "Option.bind (findNodeByStyleId doc (style_node_id bad)) node_style = None \<Longrightarrow>
   extractTypography_styles doc typo (pre @ bad # post) =
     extractTypography_styles doc typo (pre @ post)"
  by (induction pre arbitrary: typo) (auto split: option.splits)

lemma extractEffects_styles_skip:
  "firstEffect (findNodeByStyleId doc (style_node_id bad)) = None \<Longrightarrow>
   extractEffects_styles fmt doc effs (pre @ bad # post) =
     extractEffects_styles fmt doc effs (pre @ post)"
  by (induction pre arbitrary: effs) (auto split: option.splits)

text \<open>
  Claim C5. A style entry whose node cannot be resolved, or whose node lacks the payload
  its extractor reads (a first fill with a color, a text style object, a first effect),
  adds no token and raises no error, even when the entry has no name: the loop over that
  entry alone returns the map it was given, and each extractor returns on the list with the
  entry what it returns on the list without it.
\<close>

theorem malformed_style_entry_skipped:
  "(findNodeByStyleId (file_document fileData) (style_node_id bad) = None
      \<or> firstFillColor (findNodeByStyleId (file_document fileData) (style_node_id bad)) = None
    \<longrightarrow> extractColors fileData (pre @ bad # post) = extractColors fileData (pre @ post)
        \<and> extractColors_styles (file_document fileData) colors [bad] = Inr colors)
   \<and> (findNodeByStyleId (file_document fileData) (style_node_id bad) = None
      \<or> Option.bind (findNodeByStyleId (file_document fileData) (style_node_id bad)) node_style
          = None
    \<longrightarrow> extractTypography fileData (pre @ bad # post) = extractTypography fileData (pre @ post)
        \<and> extractTypography_styles (file_document fileData) typo [bad] = Inr typo)
   \<and> (findNodeByStyleId (file_document fileData) (style_node_id bad) = None
      \<or> firstEffect (findNodeByStyleId (file_document fileData) (style_node_id bad)) = None
    \<longrightarrow> extractEffects fmt fileData (pre @ bad # post) = extractEffects fmt fileData (pre @ post)
        \<and> extractEffects_styles fmt (file_document fileData) effs [bad] = Inr effs)"
proof (intro conjI impI)
  assume "findNodeByStyleId (file_document fileData) (style_node_id bad) = None
      \<or> firstFillColor (findNodeByStyleId (file_document fileData) (style_node_id bad)) = None"
  then have none: "firstFillColor (findNodeByStyleId (file_document fileData) (style_node_id bad)) = None"
    by (auto simp: firstFillColor_def)
  show "extractColors fileData (pre @ bad # post) = extractColors fileData (pre @ post)"
    using extractColors_styles_skip[OF none] by (simp add: extractColors_def)
  show "extractColors_styles (file_document fileData) colors [bad] = Inr colors"
    using none by simp
next
  assume "findNodeByStyleId (file_document fileData) (style_node_id bad) = None
      \<or> Option.bind (findNodeByStyleId (file_document fileData) (style_node_id bad)) node_style
          = None"
  then have none: "Option.bind (findNodeByStyleId (file_document fileData) (style_node_id bad))
      node_style = None"
    by auto
  show "extractTypography fileData (pre @ bad # post) = extractTypography fileData (pre @ post)"
    using extractTypography_styles_skip[OF none] by (simp add: extractTypography_def)
  show "extractTypography_styles (file_document fileData) typo [bad] = Inr typo"
    using none by simp
next
  assume "findNodeByStyleId (file_document fileData) (style_node_id bad) = None
      \<or> firstEffect (findNodeByStyleId (file_document fileData) (style_node_id bad)) = None"
  then have none: "firstEffect (findNodeByStyleId (file_document fileData) (style_node_id bad)) = None"
    by (auto simp: firstEffect_def)
  show "extractEffects fmt fileData (pre @ bad # post) = extractEffects fmt fileData (pre @ post)"
    using extractEffects_styles_skip[OF none] by (simp add: extractEffects_def)
  show "extractEffects_styles fmt (file_document fileData) effs [bad] = Inr effs"
    using none by simp
qed

theorem malformed_style_entry_skipped_witness:
  "extractColors (sample_file None)
     ([sample_style ''FILL'' ''Brand/Primary'' ''1:2''] @ sample_unnamed ''FILL'' ''9:9''
        # [sample_style ''FILL'' ''Brand/Accent'' ''1:6''])
   = extractColors (sample_file None)
     ([sample_style ''FILL'' ''Brand/Primary'' ''1:2''] @ [sample_style ''FILL'' ''Brand/Accent'' ''1:6''])
   \<and> extractColors (sample_file None)
     ([sample_style ''FILL'' ''Brand/Primary'' ''1:2''] @ sample_unnamed ''FILL'' ''1:5''
        # [sample_style ''FILL'' ''Brand/Accent'' ''1:6''])
   = Inr [(''brand-primary'',
            \<lparr>ct_name = ''Brand/Primary'', ct_value = ''#ff0000'', ct_opacity = Some (1 / 2),
             ct_description = None, ct_figmaId = Some ''key-1:2''\<rparr>),
          (''brand-accent'',
            \<lparr>ct_name = ''Brand/Accent'', ct_value = ''#00ff00'', ct_opacity = Some 1,
             ct_description = None, ct_figmaId = Some ''key-1:6''\<rparr>)]
   \<and> extractTypography (sample_file None)
     ([] @ sample_unnamed ''TEXT'' ''1:5'' # [sample_style ''TEXT'' ''Heading/H1'' ''1:3''])
   = extractTypography (sample_file None) ([] @ [sample_style ''TEXT'' ''Heading/H1'' ''1:3''])
   \<and> extractEffects (\<lambda>q. []) (sample_file None)
     ([sample_style ''EFFECT'' ''Blur/Soft'' ''1:4''] @ sample_unnamed ''EFFECT'' ''1:5'' # [])
   = extractEffects (\<lambda>q. []) (sample_file None) ([sample_style ''EFFECT'' ''Blur/Soft'' ''1:4''] @ [])"
proof -
  let ?f = "sample_file None"
  have c1: "findNodeByStyleId (file_document ?f) (style_node_id (sample_unnamed ''FILL'' ''9:9'')) = None"
    by code_simp
  have c2: "firstFillColor (findNodeByStyleId (file_document ?f)
      (style_node_id (sample_unnamed ''FILL'' ''1:5''))) = None"
    by code_simp
  have t: "Option.bind (findNodeByStyleId (file_document ?f)
      (style_node_id (sample_unnamed ''TEXT'' ''1:5''))) node_style = None"
    by code_simp
  have e: "firstEffect (findNodeByStyleId (file_document ?f)
      (style_node_id (sample_unnamed ''EFFECT'' ''1:5''))) = None"
    by code_simp
  have r: "extractColors ?f
     ([sample_style ''FILL'' ''Brand/Primary'' ''1:2''] @ [sample_style ''FILL'' ''Brand/Accent'' ''1:6''])
   = Inr [(''brand-primary'',
            \<lparr>ct_name = ''Brand/Primary'', ct_value = ''#ff0000'', ct_opacity = Some (1 / 2),
             ct_description = None, ct_figmaId = Some ''key-1:2''\<rparr>),
          (''brand-accent'',
            \<lparr>ct_name = ''Brand/Accent'', ct_value = ''#00ff00'', ct_opacity = Some 1,
             ct_description = None, ct_figmaId = Some ''key-1:6''\<rparr>)]"
    by code_simp
  show ?thesis
    using malformed_style_entry_skipped[of ?f "sample_unnamed ''FILL'' ''9:9''"
        "[sample_style ''FILL'' ''Brand/Primary'' ''1:2'']"
        "[sample_style ''FILL'' ''Brand/Accent'' ''1:6'']"]
      malformed_style_entry_skipped[of ?f "sample_unnamed ''FILL'' ''1:5''"
        "[sample_style ''FILL'' ''Brand/Primary'' ''1:2'']"
        "[sample_style ''FILL'' ''Brand/Accent'' ''1:6'']"]
      malformed_style_entry_skipped[of ?f "sample_unnamed ''TEXT'' ''1:5''" "[]"
        "[sample_style ''TEXT'' ''Heading/H1'' ''1:3'']"]
      malformed_style_entry_skipped[of ?f "sample_unnamed ''EFFECT'' ''1:5''"
        "[sample_style ''EFFECT'' ''Blur/Soft'' ''1:4'']" "[]" _ _ "\<lambda>q. []"]
      c1 c2 t e r
    by metis
qed

subsection \<open>Enumeration and folds over objects\<close>

lemma Object_keys_empty: "(length (Object_keys ob) > 0) = (ob \<noteq> [])"
proof -
  have "set (Object_keys ob) = fst ` set ob"
    by (simp add: Object_keys_def set_Object_entries)
  then show ?thesis by (cases ob) (auto simp: Object_keys_def)
qed

lemma Object_entries_Nil: "Object_entries [] = []"
  by (simp add: Object_entries_def)

lemma Object_entries_filter:
  "Object_entries (filter P ob) = filter P (Object_entries ob)"
  by (simp add: Object_entries_def filter_sort conj_commute)




lemma foldl_filter_noop:
  "(\<And>a x. \<not> P x \<Longrightarrow> f a x = a) \<Longrightarrow> foldl f a (filter P xs) = foldl f a xs"
  by (induction xs arbitrary: a) auto

subsection \<open>Effect tokens in the four outputs\<close>

lemma Object_keys_Nil_iff: "(Object_keys ob = []) = (ob = [])"
  using Object_keys_empty[of ob] by auto










subsection \<open>Effect kinds\<close>

lemma mapEffectType_not_Glow: "mapEffectType figmaType \<noteq> Glow"
  by (simp add: mapEffectType_def)

lemma extractEffects_styles_types:
  "extractEffects_styles fmt doc effs styles = Inr effs' \<Longrightarrow>
   (\<forall>kv \<in> set effs. et_type (snd kv) \<noteq> Glow) \<Longrightarrow>
   (\<forall>kv \<in> set effs'. et_type (snd kv) \<noteq> Glow)"
proof (induction fmt doc effs styles rule: extractEffects_styles.induct)
  case (1 fmt doc effs)
  then show ?case by simp
next
  case (2 fmt doc effs style rest)
  show ?case
  proof (cases "firstEffect (findNodeByStyleId doc (style_node_id style))")
    case None
    then show ?thesis using 2 by simp
  next
    case (Some effect)
    obtain nm where nm: "style_name style = Some nm"
      using "2.prems"(1) Some by (cases "style_name style") auto
    let ?e = "obj_set effs (tokenizeName nm) (effectToken fmt style nm effect)"
    have run: "extractEffects_styles fmt doc ?e rest = Inr effs'"
      using "2.prems"(1) Some nm by simp
    have "\<forall>kv \<in> set ?e. et_type (snd kv) \<noteq> Glow"
    proof
      fix kv assume "kv \<in> set ?e"
      then have "kv = (tokenizeName nm, effectToken fmt style nm effect) \<or> kv \<in> set effs"
        using set_obj_set by fastforce
      then show "et_type (snd kv) \<noteq> Glow"
        using "2.prems"(2) by (auto simp: effectToken_def mapEffectType_not_Glow)
    qed
    then show ?thesis using "2.IH"(2)[OF Some nm run] by blast
  qed
qed

lemma concat_map_filter_empty:
  "(\<And>x. \<not> P x \<Longrightarrow> f x = []) \<Longrightarrow> concat (map f (filter P xs)) = concat (map f xs)"
  by (induction xs) auto

lemma css_effect_lines_Glow: "et_type (snd kv) = Glow \<Longrightarrow> css_effect_lines fmt kv = []"
  by (cases kv) (simp add: css_effect_lines_def)

lemma scss_effect_lines_Glow: "et_type (snd kv) = Glow \<Longrightarrow> scss_effect_lines fmt kv = []"
  by (cases kv) (simp add: scss_effect_lines_def)

lemma tailwind_effects_without_Glow:
  "tailwind_effects fmt (filter (\<lambda>kv. et_type (snd kv) \<noteq> Glow) effs) = tailwind_effects fmt effs"
  unfolding tailwind_effects_def Object_entries_filter
  by (rule foldl_filter_noop) simp

lemma json_effects_without_Glow:
  "json_effects fmt (filter (\<lambda>kv. et_type (snd kv) \<noteq> Glow) effs) = json_effects fmt effs"
  unfolding json_effects_def Object_entries_filter
  by (rule foldl_filter_noop) simp

lemma toCSSVariables_lines_without_Glow:
  assumes "filter (\<lambda>kv. et_type (snd kv) \<noteq> Glow) (tk_effects tokens) \<noteq> []"
  shows "toCSSVariables_lines fmt
      (tokens\<lparr>tk_effects := filter (\<lambda>kv. et_type (snd kv) \<noteq> Glow) (tk_effects tokens)\<rparr>)
    = toCSSVariables_lines fmt tokens"
proof -
  have ne: "tk_effects tokens \<noteq> []" using assms by auto
  have "concat (map (css_effect_lines fmt)
          (filter (\<lambda>kv. et_type (snd kv) \<noteq> Glow) (Object_entries (tk_effects tokens))))
      = concat (map (css_effect_lines fmt) (Object_entries (tk_effects tokens)))"
    by (rule concat_map_filter_empty) (simp add: css_effect_lines_Glow)
  then show ?thesis
    using assms ne
    by (simp add: toCSSVariables_lines_def Object_keys_Nil_iff Object_entries_filter)
qed

lemma toSCSS_lines_without_Glow:
  assumes "filter (\<lambda>kv. et_type (snd kv) \<noteq> Glow) (tk_effects tokens) \<noteq> []"
  shows "toSCSS_lines fmt
      (tokens\<lparr>tk_effects := filter (\<lambda>kv. et_type (snd kv) \<noteq> Glow) (tk_effects tokens)\<rparr>)
    = toSCSS_lines fmt tokens"
proof -
  have ne: "tk_effects tokens \<noteq> []" using assms by auto
  have "concat (map (scss_effect_lines fmt)
          (filter (\<lambda>kv. et_type (snd kv) \<noteq> Glow) (Object_entries (tk_effects tokens))))
      = concat (map (scss_effect_lines fmt) (Object_entries (tk_effects tokens)))"
    by (rule concat_map_filter_empty) (simp add: scss_effect_lines_Glow)
  then show ?thesis
    using assms ne
    by (simp add: toSCSS_lines_def Object_keys_Nil_iff Object_entries_filter)
qed

text \<open>
  Claim C9. \<open>mapEffectType\<close> returns \<open>shadow\<close> or \<open>blur\<close>, never \<open>glow\<close>, and \<open>shadow\<close> for
  every type it does not know; so every effect token of a successful extraction has type
  \<open>shadow\<close> or \<open>blur\<close>. A token of type \<open>glow\<close> is emitted by no serializer: it yields no line
  of the CSS and of the SCSS output, and taking the \<open>glow\<close> tokens out of a token set changes
  neither the Tailwind nor the JSON output, nor the CSS and SCSS outputs when an effect token
  of another type remains.
\<close>

theorem glow_never_extracted_nor_emitted:
  "mapEffectType figmaType \<noteq> Glow
   \<and> (figmaType \<notin> set [''DROP_SHADOW'', ''INNER_SHADOW'', ''LAYER_BLUR'', ''BACKGROUND_BLUR'']
      \<longrightarrow> mapEffectType figmaType = Shadow)
   \<and> (extractEffects fmt fileData styles = Inr effs \<and> (k, tok) \<in> set effs
      \<longrightarrow> et_type tok = Shadow \<or> et_type tok = Blur)
   \<and> (et_type e = Glow
      \<longrightarrow> css_effect_lines fmt (key, e) = [] \<and> scss_effect_lines fmt (key, e) = [])
   \<and> toTailwindConfig fmt
        (tokens\<lparr>tk_effects := filter (\<lambda>kv. et_type (snd kv) \<noteq> Glow) (tk_effects tokens)\<rparr>)
      = toTailwindConfig fmt tokens
   \<and> toJSON fmt
        (tokens\<lparr>tk_effects := filter (\<lambda>kv. et_type (snd kv) \<noteq> Glow) (tk_effects tokens)\<rparr>)
      = toJSON fmt tokens
   \<and> (filter (\<lambda>kv. et_type (snd kv) \<noteq> Glow) (tk_effects tokens) \<noteq> []
      \<longrightarrow> toCSSVariables fmt
            (tokens\<lparr>tk_effects := filter (\<lambda>kv. et_type (snd kv) \<noteq> Glow) (tk_effects tokens)\<rparr>)
          = toCSSVariables fmt tokens
        \<and> toSCSS fmt
            (tokens\<lparr>tk_effects := filter (\<lambda>kv. et_type (snd kv) \<noteq> Glow) (tk_effects tokens)\<rparr>)
          = toSCSS fmt tokens)"
proof (intro conjI impI)
  show "mapEffectType figmaType \<noteq> Glow" by (rule mapEffectType_not_Glow)
  show "mapEffectType figmaType = Shadow"
    if "figmaType \<notin> set [''DROP_SHADOW'', ''INNER_SHADOW'', ''LAYER_BLUR'', ''BACKGROUND_BLUR'']"
    using that by (simp add: mapEffectType_def)
  show "et_type tok = Shadow \<or> et_type tok = Blur"
    if "extractEffects fmt fileData styles = Inr effs \<and> (k, tok) \<in> set effs"
  proof -
    have "\<forall>kv \<in> set effs. et_type (snd kv) \<noteq> Glow"
      using that extractEffects_styles_types[of fmt "file_document fileData" "[]"
          "filter (\<lambda>s. style_type s = ''EFFECT'') styles" effs]
      by (simp add: extractEffects_def)
    then have "et_type tok \<noteq> Glow" using that by fastforce
    then show ?thesis by (cases "et_type tok") simp_all
  qed
  show "css_effect_lines fmt (key, e) = []" if "et_type e = Glow"
    using that by (simp add: css_effect_lines_Glow)
  show "scss_effect_lines fmt (key, e) = []" if "et_type e = Glow"
    using that by (simp add: scss_effect_lines_Glow)
  show "toTailwindConfig fmt
        (tokens\<lparr>tk_effects := filter (\<lambda>kv. et_type (snd kv) \<noteq> Glow) (tk_effects tokens)\<rparr>)
      = toTailwindConfig fmt tokens"
    by (simp add: toTailwindConfig_def toTailwindConfig_lines_def toTailwindConfig_config_def
        tailwind_effects_without_Glow)
  show "toJSON fmt
        (tokens\<lparr>tk_effects := filter (\<lambda>kv. et_type (snd kv) \<noteq> Glow) (tk_effects tokens)\<rparr>)
      = toJSON fmt tokens"
    by (simp add: toJSON_def toJSON_output_def json_effects_without_Glow)
  show "toCSSVariables fmt
            (tokens\<lparr>tk_effects := filter (\<lambda>kv. et_type (snd kv) \<noteq> Glow) (tk_effects tokens)\<rparr>)
          = toCSSVariables fmt tokens"
    if "filter (\<lambda>kv. et_type (snd kv) \<noteq> Glow) (tk_effects tokens) \<noteq> []"
    using that by (simp add: toCSSVariables_def toCSSVariables_lines_without_Glow)
  show "toSCSS fmt
            (tokens\<lparr>tk_effects := filter (\<lambda>kv. et_type (snd kv) \<noteq> Glow) (tk_effects tokens)\<rparr>)
          = toSCSS fmt tokens"
    if "filter (\<lambda>kv. et_type (snd kv) \<noteq> Glow) (tk_effects tokens) \<noteq> []"
    using that by (simp add: toSCSS_def toSCSS_lines_without_Glow)
qed


theorem glow_never_extracted_nor_emitted_witness:
  "mapEffectType ''OUTER_GLOW'' = Shadow
   \<and> extractEffects (\<lambda>q. []) (sample_file None) [sample_style ''EFFECT'' ''Blur/Soft'' ''1:4'']
     = Inr [(''blur-soft'',
            \<lparr>et_name = ''Blur/Soft'', et_type = Blur,
             et_value = \<lparr>ev_color = None, ev_offsetX = Some 0, ev_offsetY = Some 0,
                         ev_blur = Some 4, ev_spread = Some 0\<rparr>,
             et_description = None, et_figmaId = Some ''key-1:4''\<rparr>)]
   \<and> toTailwindConfig (\<lambda>q. [])
       (effect_tokens [(''soft'', sample_effect Blur ''Soft''), (''card'', sample_effect Shadow ''Card'')])
     = toTailwindConfig (\<lambda>q. [])
       (effect_tokens [(''soft'', sample_effect Blur ''Soft''), (''halo'', sample_effect Glow ''Halo''),
                       (''card'', sample_effect Shadow ''Card'')])
   \<and> toJSON (\<lambda>q. [])
       (effect_tokens [(''soft'', sample_effect Blur ''Soft''), (''card'', sample_effect Shadow ''Card'')])
     = toJSON (\<lambda>q. [])
       (effect_tokens [(''soft'', sample_effect Blur ''Soft''), (''halo'', sample_effect Glow ''Halo''),
                       (''card'', sample_effect Shadow ''Card'')])
   \<and> toCSSVariables (\<lambda>q. [])
       (effect_tokens [(''soft'', sample_effect Blur ''Soft''), (''card'', sample_effect Shadow ''Card'')])
     = toCSSVariables (\<lambda>q. [])
       (effect_tokens [(''soft'', sample_effect Blur ''Soft''), (''halo'', sample_effect Glow ''Halo''),
                       (''card'', sample_effect Shadow ''Card'')])
   \<and> toSCSS (\<lambda>q. [])
       (effect_tokens [(''soft'', sample_effect Blur ''Soft''), (''card'', sample_effect Shadow ''Card'')])
     = toSCSS (\<lambda>q. [])
       (effect_tokens [(''soft'', sample_effect Blur ''Soft''), (''halo'', sample_effect Glow ''Halo''),
                       (''card'', sample_effect Shadow ''Card'')])
   \<and> toCSSVariables_lines (\<lambda>q. []) (effect_tokens [(''halo'', sample_effect Glow ''Halo'')])
     = take 8 (toCSSVariables_lines (\<lambda>q. []) empty_tokens)
       @ [''  /* Effects */'', '''']
       @ drop 8 (toCSSVariables_lines (\<lambda>q. []) empty_tokens)"
proof -
  let ?all = "effect_tokens [(''soft'', sample_effect Blur ''Soft''),
      (''halo'', sample_effect Glow ''Halo''), (''card'', sample_effect Shadow ''Card'')]"
  let ?kept = "effect_tokens [(''soft'', sample_effect Blur ''Soft''),
      (''card'', sample_effect Shadow ''Card'')]"
  have f: "?all\<lparr>tk_effects := filter (\<lambda>kv. et_type (snd kv) \<noteq> Glow) (tk_effects ?all)\<rparr> = ?kept"
    by (simp add: effect_tokens_def sample_effect_def)
  have ne: "filter (\<lambda>kv. et_type (snd kv) \<noteq> Glow) (tk_effects ?all) \<noteq> []"
    by (simp add: effect_tokens_def sample_effect_def)
  have x: "extractEffects (\<lambda>q. []) (sample_file None) [sample_style ''EFFECT'' ''Blur/Soft'' ''1:4'']
     = Inr [(''blur-soft'',
            \<lparr>et_name = ''Blur/Soft'', et_type = Blur,
             et_value = \<lparr>ev_color = None, ev_offsetX = Some 0, ev_offsetY = Some 0,
                         ev_blur = Some 4, ev_spread = Some 0\<rparr>,
             et_description = None, et_figmaId = Some ''key-1:4''\<rparr>)]"
    by code_simp
  have g: "toCSSVariables_lines (\<lambda>q. []) (effect_tokens [(''halo'', sample_effect Glow ''Halo'')])
     = take 8 (toCSSVariables_lines (\<lambda>q. []) empty_tokens)
       @ [''  /* Effects */'', '''']
       @ drop 8 (toCSSVariables_lines (\<lambda>q. []) empty_tokens)"
    by code_simp
  have u: "''OUTER_GLOW'' \<notin> set [''DROP_SHADOW'', ''INNER_SHADOW'', ''LAYER_BLUR'', ''BACKGROUND_BLUR'']"
    by simp
  show ?thesis
    using glow_never_extracted_nor_emitted[of "''OUTER_GLOW''" "\<lambda>q. []" _ _ _ _ _ _ _ ?all]
      u ne x g
    unfolding f by simp
qed

subsection \<open>Empty categories and headers\<close>

lemma css_effect_lines_prefix:
  "l \<in> set (css_effect_lines fmt kv) \<Longrightarrow>
     (\<exists>r. l = ''  --shadow-'' @ r) \<or> (\<exists>r. l = ''  --blur-'' @ r)"
  by (cases kv; cases "et_type (snd kv)") (auto simp: css_effect_lines_def)

lemma scss_effect_lines_prefix:
  "l \<in> set (scss_effect_lines fmt kv) \<Longrightarrow>
     (\<exists>r. l = ''$shadow-'' @ r) \<or> (\<exists>r. l = ''$blur-'' @ r)"
  by (cases kv; cases "et_type (snd kv)") (auto simp: scss_effect_lines_def)

lemma css_without_colors:
  assumes "tk_colors tokens = []" "l \<in> set (toCSSVariables_lines fmt tokens)"
  shows "\<not> prefix ''  /* Colors'' l \<and> \<not> prefix ''  --color-'' l"
  using assms
  by (auto simp: toCSSVariables_lines_def Object_keys_Nil css_typography_lines_def
      css_spacing_lines_def dquote_def
      split: if_splits dest!: css_effect_lines_prefix)

lemma css_without_typography:
  assumes "tk_typography tokens = []" "l \<in> set (toCSSVariables_lines fmt tokens)"
  shows "\<not> prefix ''  /* Typography'' l \<and> \<not> prefix ''  --font-'' l"
  using assms
  by (auto simp: toCSSVariables_lines_def Object_keys_Nil css_color_lines_def
      css_spacing_lines_def dquote_def
      split: if_splits option.splits dest!: css_effect_lines_prefix)

lemma css_without_spacing:
  assumes "tk_spacing tokens = []" "l \<in> set (toCSSVariables_lines fmt tokens)"
  shows "\<not> prefix ''  /* Spacing'' l \<and> \<not> prefix ''  --spacing-'' l"
  using assms
  by (auto simp: toCSSVariables_lines_def Object_keys_Nil css_color_lines_def
      css_typography_lines_def dquote_def
      split: if_splits option.splits dest!: css_effect_lines_prefix)

lemma css_without_effects:
  assumes "tk_effects tokens = []" "l \<in> set (toCSSVariables_lines fmt tokens)"
  shows "\<not> prefix ''  /* Effects'' l \<and> \<not> prefix ''  --shadow-'' l \<and> \<not> prefix ''  --blur-'' l"
  using assms
  by (auto simp: toCSSVariables_lines_def Object_keys_Nil css_color_lines_def
      css_typography_lines_def css_spacing_lines_def dquote_def
      split: if_splits option.splits)

lemma scss_without_colors:
  assumes "tk_colors tokens = []" "l \<in> set (toSCSS_lines fmt tokens)"
  shows "\<not> prefix ''// Colors'' l \<and> \<not> prefix ''$color'' l"
  using assms
  by (auto simp: toSCSS_lines_def Object_keys_Nil scss_typography_lines_def
      scss_mixin_lines_def dquote_def
      split: if_splits dest!: scss_effect_lines_prefix)

lemma scss_without_typography:
  assumes "tk_typography tokens = []" "l \<in> set (toSCSS_lines fmt tokens)"
  shows "\<not> prefix ''// Typography'' l \<and> \<not> prefix ''$font-'' l \<and> \<not> prefix ''@mixin'' l"
  using assms
  by (auto simp: toSCSS_lines_def Object_keys_Nil scss_color_map_line_def dquote_def
      split: if_splits dest!: scss_effect_lines_prefix)

lemma scss_without_spacing:
  assumes "tk_spacing tokens = []" "l \<in> set (toSCSS_lines fmt tokens)"
  shows "\<not> prefix ''// Spacing'' l \<and> \<not> prefix ''$spacing'' l"
  using assms
  by (auto simp: toSCSS_lines_def Object_keys_Nil scss_color_map_line_def
      scss_typography_lines_def scss_mixin_lines_def dquote_def
      split: if_splits dest!: scss_effect_lines_prefix)

lemma scss_without_effects:
  assumes "tk_effects tokens = []" "l \<in> set (toSCSS_lines fmt tokens)"
  shows "\<not> prefix ''// Effects'' l \<and> \<not> prefix ''$shadow-'' l \<and> \<not> prefix ''$blur-'' l"
  using assms
  by (auto simp: toSCSS_lines_def Object_keys_Nil scss_color_map_line_def
      scss_typography_lines_def scss_mixin_lines_def dquote_def
      split: if_splits)


lemma json_at_tailwind:
  "json_at (toTailwindConfig_config fmt tokens) [''theme'', ''extend'', ''colors'']
     = Some (JObject (tailwind_colors (tk_colors tokens)))"
  "json_at (toTailwindConfig_config fmt tokens) [''theme'', ''extend'', ''fontFamily'']
     = Some (JObject (tailwind_fontFamilies (tk_typography tokens)))"
  "json_at (toTailwindConfig_config fmt tokens) [''theme'', ''extend'', ''fontSize'']
     = Some (JObject (tailwind_fontSizes fmt (tk_typography tokens)))"
  "json_at (toTailwindConfig_config fmt tokens) [''theme'', ''extend'', ''spacing'']
     = Some (JObject (tailwind_spacing fmt (tk_spacing tokens)))"
  "json_at (toTailwindConfig_config fmt tokens) [''theme'', ''extend'', ''boxShadow'']
     = Some (JObject (fst (tailwind_effects fmt (tk_effects tokens))))"
  "json_at (toTailwindConfig_config fmt tokens) [''theme'', ''extend'', ''blur'']
     = Some (JObject (snd (tailwind_effects fmt (tk_effects tokens))))"
  by (simp_all add: toTailwindConfig_config_def obj_get_def)

lemma json_at_output:
  "json_at (toJSON_output fmt tokens) [''color''] = Some (JObject (json_colors (tk_colors tokens)))"
  "json_at (toJSON_output fmt tokens) [''typography'']
     = Some (JObject (json_typography fmt (tk_typography tokens)))"
  "json_at (toJSON_output fmt tokens) [''spacing'']
     = Some (JObject (json_spacing fmt (tk_spacing tokens)))"
  "json_at (toJSON_output fmt tokens) [''effect'']
     = Some (JObject (json_effects fmt (tk_effects tokens)))"
  "json_at (toJSON_output fmt tokens) [''$metadata'', ''lastSynced'']
     = Some (JString (md_lastSynced (tk_metadata tokens)))"
  "json_at (toJSON_output fmt tokens) [''$metadata'', ''source'', ''fileKey'']
     = Some (optional_string (md_figmaFileKey (tk_metadata tokens)))"
  by (simp_all add: toJSON_output_def obj_get_def)

lemma toJSON_starts_with_brace: "take 1 (toJSON fmt tokens) = ''{''"
proof -
  have "Object_entries
      [(''$schema'', a), (''$metadata'', b), (''color'', c), (''typography'', d),
       (''spacing'', e), (''effect'', f)]
    = [(''$schema'', a), (''$metadata'', b), (''color'', c), (''typography'', d),
       (''spacing'', e), (''effect'', f)]" for a b c d e f :: json
    by (simp add: Object_entries_def isArrayIndex_def isDigit_def)
  then show ?thesis
    by (simp add: toJSON_def JSON_stringify_def toJSON_output_def)
qed

text \<open>
  Claim C8 as stated fails on the empty token set: the Tailwind output and the JSON document
  hold an empty object \<open>{}\<close> for every category, the Tailwind and the SCSS header name no
  source, and the JSON document has no comment header.
\<close>

theorem empty_token_set_counterexample:
  "toTailwindConfig sample_fmt empty_tokens =
     join newline
       [''/**'',
        '' * Origin OS Tailwind Design Tokens'',
        '' * Generated: 2024-01-01T00:00:00.000Z'',
        '' * DO NOT EDIT MANUALLY - This file is auto-generated'',
        '' */'',
        '''',
        ''/** @type {import('' @ quoteJSON ''tailwindcss'' @ '').Config} */'',
        ''module.exports = {'',
        ''  '' @ quoteJSON ''theme'' @ '': {'',
        ''    '' @ quoteJSON ''extend'' @ '': {'',
        ''      '' @ quoteJSON ''colors'' @ '': {},'',
        ''      '' @ quoteJSON ''fontFamily'' @ '': {},'',
        ''      '' @ quoteJSON ''fontSize'' @ '': {},'',
        ''      '' @ quoteJSON ''fontWeight'' @ '': {},'',
        ''      '' @ quoteJSON ''lineHeight'' @ '': {},'',
        ''      '' @ quoteJSON ''letterSpacing'' @ '': {},'',
        ''      '' @ quoteJSON ''spacing'' @ '': {},'',
        ''      '' @ quoteJSON ''boxShadow'' @ '': {},'',
        ''      '' @ quoteJSON ''blur'' @ '': {}'',
        ''    }'',
        ''  }'',
        ''}'']
   \<and> toJSON sample_fmt empty_tokens =
     join newline
       [''{'',
        ''  '' @ quoteJSON ''$schema'' @ '': ''
           @ quoteJSON ''https://design-tokens.github.io/community-group/format/'' @ '','',
        ''  '' @ quoteJSON ''$metadata'' @ '': {'',
        ''    '' @ quoteJSON ''generator'' @ '': '' @ quoteJSON ''origin-os-figma-sync'' @ '','',
        ''    '' @ quoteJSON ''version'' @ '': '' @ quoteJSON ''1.0.0'' @ '','',
        ''    '' @ quoteJSON ''lastSynced'' @ '': '' @ quoteJSON ''2024-01-01T00:00:00.000Z'' @ '','',
        ''    '' @ quoteJSON ''source'' @ '': {'',
        ''      '' @ quoteJSON ''type'' @ '': '' @ quoteJSON ''figma'' @ '','',
        ''      '' @ quoteJSON ''fileKey'' @ '': '' @ quoteJSON ''abc123'',
        ''    }'',
        ''  },'',
        ''  '' @ quoteJSON ''color'' @ '': {},'',
        ''  '' @ quoteJSON ''typography'' @ '': {},'',
        ''  '' @ quoteJSON ''spacing'' @ '': {},'',
        ''  '' @ quoteJSON ''effect'' @ '': {}'',
        ''}'']
   \<and> toSCSS sample_fmt empty_tokens =
     join newline
       [''//'',
        ''// Origin OS Design Tokens (SCSS)'',
        ''// Generated: 2024-01-01T00:00:00.000Z'',
        ''// DO NOT EDIT MANUALLY - This file is auto-generated'',
        ''//'',
        '''']"
  by code_simp


lemma folds_of_Nil:
  "tailwind_colors [] = []" "tailwind_fontFamilies [] = []" "tailwind_fontSizes fmt [] = []"
  "tailwind_spacing fmt [] = []" "tailwind_effects fmt [] = ([], [])"
  "json_colors [] = []" "json_typography fmt [] = []" "json_spacing fmt [] = []"
  "json_effects fmt [] = []"
  by (simp_all add: tailwind_colors_def tailwind_fontFamilies_def tailwind_fontSizes_def
      tailwind_spacing_def tailwind_effects_def json_colors_def json_typography_def
      json_spacing_def json_effects_def Object_entries_Nil)

text \<open>
  Claim C8, as amended. For every token set: the CSS and the SCSS serializer emit nothing for
  an empty category, neither its section comment nor a declaration of it, and with all four
  categories empty their output is the header alone (in CSS followed by the empty \<open>:root\<close>
  block and the dark-mode placeholder); the Tailwind and the JSON serializer emit the member
  of every category whatever its size, and an empty category is the empty object, printed as
  \<open>{}\<close>. The CSS header states the timestamp, the source file key and the do-not-edit
  notice; the SCSS and the Tailwind header state the timestamp and the notice; the JSON
  document starts with its opening brace, and its \<open>$metadata\<close> block holds the timestamp and
  the source file key.
\<close>

theorem empty_categories_and_headers:
  "(tk_colors tokens = [] \<longrightarrow>
      (\<forall>l \<in> set (toCSSVariables_lines fmt tokens).
          \<not> prefix ''  /* Colors'' l \<and> \<not> prefix ''  --color-'' l)
      \<and> (\<forall>l \<in> set (toSCSS_lines fmt tokens). \<not> prefix ''// Colors'' l \<and> \<not> prefix ''$color'' l)
      \<and> json_at (toTailwindConfig_config fmt tokens) [''theme'', ''extend'', ''colors'']
          = Some (JObject [])
      \<and> json_at (toJSON_output fmt tokens) [''color''] = Some (JObject []))
   \<and> (tk_typography tokens = [] \<longrightarrow>
      (\<forall>l \<in> set (toCSSVariables_lines fmt tokens).
          \<not> prefix ''  /* Typography'' l \<and> \<not> prefix ''  --font-'' l)
      \<and> (\<forall>l \<in> set (toSCSS_lines fmt tokens).
          \<not> prefix ''// Typography'' l \<and> \<not> prefix ''$font-'' l \<and> \<not> prefix ''@mixin'' l)
      \<and> json_at (toTailwindConfig_config fmt tokens) [''theme'', ''extend'', ''fontFamily'']
          = Some (JObject [])
      \<and> json_at (toTailwindConfig_config fmt tokens) [''theme'', ''extend'', ''fontSize'']
          = Some (JObject [])
      \<and> json_at (toJSON_output fmt tokens) [''typography''] = Some (JObject []))
   \<and> (tk_spacing tokens = [] \<longrightarrow>
      (\<forall>l \<in> set (toCSSVariables_lines fmt tokens).
          \<not> prefix ''  /* Spacing'' l \<and> \<not> prefix ''  --spacing-'' l)
      \<and> (\<forall>l \<in> set (toSCSS_lines fmt tokens). \<not> prefix ''// Spacing'' l \<and> \<not> prefix ''$spacing'' l)
      \<and> json_at (toTailwindConfig_config fmt tokens) [''theme'', ''extend'', ''spacing'']
          = Some (JObject [])
      \<and> json_at (toJSON_output fmt tokens) [''spacing''] = Some (JObject []))
   \<and> (tk_effects tokens = [] \<longrightarrow>
      (\<forall>l \<in> set (toCSSVariables_lines fmt tokens).
          \<not> prefix ''  /* Effects'' l \<and> \<not> prefix ''  --shadow-'' l \<and> \<not> prefix ''  --blur-'' l)
      \<and> (\<forall>l \<in> set (toSCSS_lines fmt tokens).
          \<not> prefix ''// Effects'' l \<and> \<not> prefix ''$shadow-'' l \<and> \<not> prefix ''$blur-'' l)
      \<and> json_at (toTailwindConfig_config fmt tokens) [''theme'', ''extend'', ''boxShadow'']
          = Some (JObject [])
      \<and> json_at (toTailwindConfig_config fmt tokens) [''theme'', ''extend'', ''blur'']
          = Some (JObject [])
      \<and> json_at (toJSON_output fmt tokens) [''effect''] = Some (JObject []))
   \<and> (tk_colors tokens = [] \<and> tk_typography tokens = [] \<and> tk_spacing tokens = []
        \<and> tk_effects tokens = [] \<longrightarrow>
      toCSSVariables_lines fmt tokens =
        [''/**'',
         '' * Origin OS Design Tokens'',
         '' * Generated: '' @ md_lastSynced (tk_metadata tokens),
         '' * Source: Figma file '' @ or_else (md_figmaFileKey (tk_metadata tokens)) ''unknown'',
         '' * DO NOT EDIT MANUALLY - This file is auto-generated'',
         '' */'',
         '''',
         '':root {'',
         ''}'',
         '''',
         ''[data-theme='' @ dquote @ ''dark'' @ dquote @ ''] {'',
         ''  /* Dark mode overrides - customize as needed */'',
         ''}'']
      \<and> toSCSS_lines fmt tokens =
        [''//'',
         ''// Origin OS Design Tokens (SCSS)'',
         ''// Generated: '' @ md_lastSynced (tk_metadata tokens),
         ''// DO NOT EDIT MANUALLY - This file is auto-generated'',
         ''//'',
         ''''])
   \<and> stringify fmt level (JObject []) = ''{}''
   \<and> take 6 (toCSSVariables_lines fmt tokens) =
        [''/**'',
         '' * Origin OS Design Tokens'',
         '' * Generated: '' @ md_lastSynced (tk_metadata tokens),
         '' * Source: Figma file '' @ or_else (md_figmaFileKey (tk_metadata tokens)) ''unknown'',
         '' * DO NOT EDIT MANUALLY - This file is auto-generated'',
         '' */'']
   \<and> take 5 (toSCSS_lines fmt tokens) =
        [''//'',
         ''// Origin OS Design Tokens (SCSS)'',
         ''// Generated: '' @ md_lastSynced (tk_metadata tokens),
         ''// DO NOT EDIT MANUALLY - This file is auto-generated'',
         ''//'']
   \<and> take 5 (toTailwindConfig_lines fmt tokens) =
        [''/**'',
         '' * Origin OS Tailwind Design Tokens'',
         '' * Generated: '' @ md_lastSynced (tk_metadata tokens),
         '' * DO NOT EDIT MANUALLY - This file is auto-generated'',
         '' */'']
   \<and> take 1 (toJSON fmt tokens) = ''{''
   \<and> json_at (toJSON_output fmt tokens) [''$metadata'', ''lastSynced'']
       = Some (JString (md_lastSynced (tk_metadata tokens)))
   \<and> json_at (toJSON_output fmt tokens) [''$metadata'', ''source'', ''fileKey'']
       = Some (optional_string (md_figmaFileKey (tk_metadata tokens)))"
proof (intro conjI impI ballI)
  show "stringify fmt level (JObject []) = ''{}''"
    by (simp add: Object_entries_Nil)
  show "take 1 (toJSON fmt tokens) = ''{''"
    by (rule toJSON_starts_with_brace)
  show "take 6 (toCSSVariables_lines fmt tokens) =
        [''/**'',
         '' * Origin OS Design Tokens'',
         '' * Generated: '' @ md_lastSynced (tk_metadata tokens),
         '' * Source: Figma file '' @ or_else (md_figmaFileKey (tk_metadata tokens)) ''unknown'',
         '' * DO NOT EDIT MANUALLY - This file is auto-generated'',
         '' */'']"
    by (simp add: toCSSVariables_lines_def)
  show "take 5 (toSCSS_lines fmt tokens) =
        [''//'',
         ''// Origin OS Design Tokens (SCSS)'',
         ''// Generated: '' @ md_lastSynced (tk_metadata tokens),
         ''// DO NOT EDIT MANUALLY - This file is auto-generated'',
         ''//'']"
    by (simp add: toSCSS_lines_def)
  show "take 5 (toTailwindConfig_lines fmt tokens) =
        [''/**'',
         '' * Origin OS Tailwind Design Tokens'',
         '' * Generated: '' @ md_lastSynced (tk_metadata tokens),
         '' * DO NOT EDIT MANUALLY - This file is auto-generated'',
         '' */'']"
    by (simp add: toTailwindConfig_lines_def)
qed (simp_all add: json_at_tailwind json_at_output folds_of_Nil css_without_colors
    css_without_typography css_without_spacing css_without_effects scss_without_colors
    scss_without_typography scss_without_spacing scss_without_effects
    toCSSVariables_lines_def toSCSS_lines_def Object_keys_Nil)


theorem empty_categories_and_headers_witness:
  "toCSSVariables_lines sample_fmt
      (color_tokens [(''primary'',
         \<lparr>ct_name = ''Primary'', ct_value = ''#ff0000'', ct_opacity = Some 1,
          ct_description = None, ct_figmaId = None\<rparr>)])
    = [''/**'',
       '' * Origin OS Design Tokens'',
       '' * Generated: 2024-01-01T00:00:00.000Z'',
       '' * Source: Figma file abc123'',
       '' * DO NOT EDIT MANUALLY - This file is auto-generated'',
       '' */'',
       '''',
       '':root {'',
       ''  /* Colors */'',
       ''  --color-primary: #ff0000;'',
       '''',
       ''}'',
       '''',
       ''[data-theme='' @ dquote @ ''dark'' @ dquote @ ''] {'',
       ''  /* Dark mode overrides - customize as needed */'',
       ''}'']
   \<and> list_all (\<lambda>l. \<not> prefix ''  /* Spacing'' l \<and> \<not> prefix ''  --spacing-'' l)
        (toCSSVariables_lines sample_fmt
          (color_tokens [(''primary'',
             \<lparr>ct_name = ''Primary'', ct_value = ''#ff0000'', ct_opacity = Some 1,
              ct_description = None, ct_figmaId = None\<rparr>)]))
   \<and> json_at (toTailwindConfig_config sample_fmt
          (color_tokens [(''primary'',
             \<lparr>ct_name = ''Primary'', ct_value = ''#ff0000'', ct_opacity = Some 1,
              ct_description = None, ct_figmaId = None\<rparr>)]))
        [''theme'', ''extend'', ''spacing''] = Some (JObject [])
   \<and> json_at (toJSON_output sample_fmt
          (color_tokens [(''primary'',
             \<lparr>ct_name = ''Primary'', ct_value = ''#ff0000'', ct_opacity = Some 1,
              ct_description = None, ct_figmaId = None\<rparr>)]))
        [''effect''] = Some (JObject [])
   \<and> toSCSS_lines sample_fmt empty_tokens =
       [''//'',
        ''// Origin OS Design Tokens (SCSS)'',
        ''// Generated: 2024-01-01T00:00:00.000Z'',
        ''// DO NOT EDIT MANUALLY - This file is auto-generated'',
        ''//'',
        '''']"
proof -
  let ?t = "color_tokens [(''primary'',
         \<lparr>ct_name = ''Primary'', ct_value = ''#ff0000'', ct_opacity = Some 1,
          ct_description = None, ct_figmaId = None\<rparr>)]"
  have css: "toCSSVariables_lines sample_fmt ?t
    = [''/**'',
       '' * Origin OS Design Tokens'',
       '' * Generated: 2024-01-01T00:00:00.000Z'',
       '' * Source: Figma file abc123'',
       '' * DO NOT EDIT MANUALLY - This file is auto-generated'',
       '' */'',
       '''',
       '':root {'',
       ''  /* Colors */'',
       ''  --color-primary: #ff0000;'',
       '''',
       ''}'',
       '''',
       ''[data-theme='' @ dquote @ ''dark'' @ dquote @ ''] {'',
       ''  /* Dark mode overrides - customize as needed */'',
       ''}'']"
    by code_simp
  have e: "tk_spacing ?t = []" "tk_effects ?t = []"
    by (simp_all add: color_tokens_def)
  have a: "tk_colors empty_tokens = [] \<and> tk_typography empty_tokens = []
      \<and> tk_spacing empty_tokens = [] \<and> tk_effects empty_tokens = []"
    by (simp add: empty_tokens_def)
  have m: "md_lastSynced (tk_metadata empty_tokens) = ''2024-01-01T00:00:00.000Z''"
    by (simp add: empty_tokens_def sample_metadata_def)
  note on_colors = empty_categories_and_headers[of ?t sample_fmt]
  note on_empty = empty_categories_and_headers[of empty_tokens sample_fmt]
  have sp: "\<forall>l \<in> set (toCSSVariables_lines sample_fmt ?t).
      \<not> prefix ''  /* Spacing'' l \<and> \<not> prefix ''  --spacing-'' l"
    using on_colors e by blast
  have tw: "json_at (toTailwindConfig_config sample_fmt ?t) [''theme'', ''extend'', ''spacing'']
      = Some (JObject [])"
    using on_colors e by blast
  have js: "json_at (toJSON_output sample_fmt ?t) [''effect''] = Some (JObject [])"
    using on_colors e by blast
  have sc: "toSCSS_lines sample_fmt empty_tokens =
       [''//'',
        ''// Origin OS Design Tokens (SCSS)'',
        ''// Generated: '' @ md_lastSynced (tk_metadata empty_tokens),
        ''// DO NOT EDIT MANUALLY - This file is auto-generated'',
        ''//'',
        '''']"
    using on_empty a by blast
  show ?thesis
    using css sp tw js sc unfolding m by (simp add: list_all_iff)
qed

end
